theory Spec2Isabelle
  imports Main
begin

section \<open>Common data\<close>

text \<open>
  A thrown JavaScript value. \<open>Error msg\<close> is \<^verbatim>\<open>new Error(msg)\<close>;
  \<open>UserCancelledError\<close> is the error of that name of vscode-azureextensionui, thrown
  by a prompt the user dismisses.
\<close>

datatype error = Error string | UserCancelledError

section \<open>util.ts: parseAzureResourceId\<close>

text \<open>
  \<^verbatim>\<open>String.prototype.split('/')\<close>: the pieces between the separators. The empty
  string splits into one empty piece, and a trailing separator leaves an empty last piece.
\<close>

fun js_split :: "char \<Rightarrow> string \<Rightarrow> string list" where
  "js_split sep [] = [[]]"
| "js_split sep (c # cs) =
     (if c = sep then [] # js_split sep cs
      else (case js_split sep cs of
              [] \<Rightarrow> [[c]]
            | p # ps \<Rightarrow> (c # p) # ps))"

text \<open>
  \<^verbatim>\<open>const result = {}\<close> is an ordinary object, modelled by the map of its own
  properties. \<^verbatim>\<open>result[key] = value\<close> creates or overwrites the own property
  \<open>key\<close>, with one exception that the object inherits from \<^verbatim>\<open>Object.prototype\<close>:
  \<^verbatim>\<open>__proto__\<close> is an accessor there, and its setter ignores a value that is neither
  an object nor null. \<open>value\<close> is a string here, so the assignment leaves the object
  as it was.
\<close>

type_synonym js_object = "string \<rightharpoonup> string"

definition assign :: "js_object \<Rightarrow> string \<Rightarrow> string \<Rightarrow> js_object" where
  "assign result key val = (if key = ''__proto__'' then result else result(key \<mapsto> val))"

definition invalidIdErr :: error where
  "invalidIdErr = Error ''Invalid web app ID.''"

text \<open>
  The \<^verbatim>\<open>for (let i = 0; i < parts.length; i += 2)\<close> loop, on the parts that are
  left from index \<open>i\<close> on. With one part left, \<^verbatim>\<open>parts[i + 1]\<close> is
  \<^verbatim>\<open>undefined\<close>, which is not \<^verbatim>\<open>''\<close>: the key alone is tested and
  \<^verbatim>\<open>undefined\<close> is stored, which the string-valued map cannot hold. The function
  runs the loop on an even number of parts only, so it never comes to that equation
  (\<open>parseAzureResourceId_error\<close> below: it throws no other error than
  \<open>invalidIdErr\<close>); the equation answers with an error of its own that cannot be taken
  for a result.
\<close>

fun parseLoop :: "string list \<Rightarrow> js_object \<Rightarrow> error + js_object" where
  "parseLoop [] result = Inr result"
| "parseLoop [key] result =
     (if key = [] then Inl invalidIdErr else Inl (Error ''parts[i + 1] is undefined''))"
| "parseLoop (key # val # rest) result =
     (if key = [] \<or> val = [] then Inl invalidIdErr
      else parseLoop rest (assign result key val))"

definition parseAzureResourceId :: "string \<Rightarrow> error + js_object" where
  "parseAzureResourceId resourceId =
     (if resourceId = [] \<or> length resourceId < 2 \<or> hd resourceId \<noteq> CHR ''/''
      then Inl invalidIdErr
      else let parts = js_split (CHR ''/'') (tl resourceId)
           in if length parts mod 2 \<noteq> 0 then Inl invalidIdErr
              else parseLoop parts Map.empty)"

text \<open>
  The result as the specification describes it, to compare with: the parts taken in
  pairs, every key with the part after it, a later pair overriding an earlier one.
\<close>

fun pairs :: "'a list \<Rightarrow> ('a \<times> 'a) list" where
  "pairs (k # v # rest) = (k, v) # pairs rest"
| "pairs [k] = []"
| "pairs [] = []"

definition pairedMap :: "string list \<Rightarrow> js_object" where
  "pairedMap parts = map_of (rev (pairs parts))"

section \<open>The host: settings, tasks, prompts, file system\<close>

text \<open>
  A value of the workspace configuration, as the two functions read it: a boolean or a
  string. \<open>truthy\<close> is JavaScript's test of a value in a condition, with
  \<open>None\<close> for \<^verbatim>\<open>undefined\<close>.
\<close>

datatype setting_value = SBool bool | SString string

definition truthy :: "setting_value option \<Rightarrow> bool" where
  "truthy v = (case v of None \<Rightarrow> False | Some (SBool b) \<Rightarrow> b | Some (SString s) \<Rightarrow> s \<noteq> [])"

text \<open>A task definition of tasks.json; an entry the user wrote may have no label.\<close>

record ITask =
  label :: "string option"
  command :: string
  task_type :: string
  args :: "string list"
  problemMatcher :: string

text \<open>
  A button of a dialog. The dialog returns the very object it was given, and the code
  compares with \<^verbatim>\<open>===\<close>; the buttons offered together have different titles, so
  the title stands for the object.
\<close>

datatype message_item = MessageItem string

record WorkspaceFolder =
  fsPath :: string
  name :: string

record IDeployWizardContext =
  workspace :: WorkspaceFolder
  deployFsPath :: string
  deployedWithConfigs :: bool

record SiteTreeItem =
  fullId :: string
  fullName :: string

record SiteConfigResource =
  linuxFxVersion :: "string option"
  scmType :: "string option"

text \<open>
  What an invocation does to the world outside it, in the order it does it. Reads of the
  file system are listed too, so that "no scan" can be said of a run.
\<close>

datatype event =
    FsReaddir string
  | FsExistsSync string
  | FsStat string
  | FsReadFile string
  | ShowWarningMessage string "message_item list"
  | UpdateWorkspaceSetting string setting_value string
  | UpdateWorkspaceSettingFailed string setting_value string
  | UpdateTasks string "ITask list"
  | GetSiteConfig string
  | GetSiteConfigDetached string
  | GetDeployFsPath
  | OnTreeItemCreate
  | GetDefaultWebAppToDeploy
  | ShowTreeItemPicker string
  | Dispose
  | FindFilesByFileExtension string string
  | ShowQuickPick "string list"
  | ConfigureJavaSEAppSettings string
  | PathExists string
  | PromptScmDoBuildDeploy string string
  | Delay nat
  | OpenTextDocument string
  | ShowTextDocument string
  | ExecuteCommand string
  | PromptToSaveDeployDefaults string string
  | RunPreDeployTask string "string option"
  | CancelWebsiteValidation string
  | AppserviceDeploy string string
  | AppendLine string
  | ShowInformationMessage string
  | ValidateWebSite string string

text \<open>
  The state the two functions read and write: the workspace settings (by workspace
  folder, then by key), the task definitions of each workspace folder, the telemetry
  properties of the action context, and the trace of what was done.
\<close>

record world =
  settings :: "string \<Rightarrow> string \<rightharpoonup> setting_value"
  tasks :: "string \<Rightarrow> ITask list"
  telemetry :: "string \<rightharpoonup> string"
  trace :: "event list"

definition emit :: "event \<Rightarrow> world \<Rightarrow> world" where
  "emit e w = w\<lparr>trace := trace w @ [e]\<rparr>"

definition setTelemetry :: "string \<Rightarrow> string \<Rightarrow> world \<Rightarrow> world" where
  "setTelemetry k v w = w\<lparr>telemetry := (telemetry w)(k \<mapsto> v)\<rparr>"

text \<open>
  Modelled from the spec: vsCodeConfig/settings.ts (getWorkspaceSetting,
  updateWorkspaceSetting) is not under src. The spec's workspace preference store is
  \<^verbatim>\<open>get(key, scope) -> value?\<close> and \<^verbatim>\<open>set(key, value, scope) -> void\<close>, scoped per
  workspace root. The write, which the callers await, is defined below, after the
  parameters of the host: it can fail.
\<close>

definition getWorkspaceSetting :: "string \<Rightarrow> string \<Rightarrow> world \<Rightarrow> setting_value option" where
  "getWorkspaceSetting key fsPath' w = settings w fsPath' key"

text \<open>
  Modelled from the spec: vsCodeConfig/tasks.ts (getTasks, updateTasks) is not under src.
  The spec's task registry is \<^verbatim>\<open>listTasks(workspace) -> Task[]\<close> and
  \<^verbatim>\<open>replaceTasks(workspace, Task[])\<close>.
\<close>

definition getTasks :: "WorkspaceFolder \<Rightarrow> world \<Rightarrow> ITask list" where
  "getTasks folder w = tasks w (fsPath folder)"

definition updateTasks :: "WorkspaceFolder \<Rightarrow> ITask list \<Rightarrow> world \<Rightarrow> world" where
  "updateTasks folder newTasks w =
     emit (UpdateTasks (fsPath folder) newTasks)
       (w\<lparr>tasks := (tasks w)(fsPath folder := newTasks)\<rparr>)"

text \<open>
  Modelled from the spec: constants.ts is not under src. The spec names the settings
  deploySubpath and the default target, and the claims name the two source-control modes
  LocalGit and GitHub.
\<close>

definition deploySubpathSetting :: string where
  "deploySubpathSetting = ''deploySubpath''"

definition defaultWebAppToDeploySetting :: string where
  "defaultWebAppToDeploySetting = ''defaultWebAppToDeploy''"

definition showBuildDuringDeployPromptSetting :: string where
  "showBuildDuringDeployPromptSetting = ''showBuildDuringDeployPrompt''"

definition ScmType_LocalGit :: string where
  "ScmType_LocalGit = ''LocalGit''"

definition ScmType_GitHub :: string where
  "ScmType_GitHub = ''GitHub''"

text \<open>The third argument of \<open>deploy\<close>: nothing, a folder or file, or a node of the tree.\<close>

datatype target = NoTarget | UriTarget string | NodeTarget SiteTreeItem

text \<open>
  Everything else the two functions call and do not define: Node's \<^verbatim>\<open>path\<close> and
  \<^verbatim>\<open>fs-extra\<close>, the editor's dialogs and commands, the cloud client, and the helpers
  of this extension that are not under src. Each is a parameter: a function from the
  arguments of the call to what the call returns, \<open>Inl\<close> when it throws or rejects.
\<close>

record env =
  readdir :: "string \<Rightarrow> error + string list"
  existsSync :: "string \<Rightarrow> bool"
  stat_isDirectory :: "string \<Rightarrow> error + bool"
  readFile :: "string \<Rightarrow> error + string"
  path_join :: "string list \<Rightarrow> string"
  path_relative :: "string \<Rightarrow> string \<Rightarrow> string"
  path_dirname :: "string \<Rightarrow> string"
  path_posix_join :: "string list \<Rightarrow> string"
  isPathEqual :: "string \<Rightarrow> string \<Rightarrow> bool"
  writeSetting :: "string \<Rightarrow> setting_value \<Rightarrow> string \<Rightarrow> error + unit"
  showWarningMessage :: "string \<Rightarrow> message_item list \<Rightarrow> error + message_item"
  DialogResponses_yes :: message_item
  DialogResponses_cancel :: message_item
  AppServiceDialogResponses_deploy :: message_item
  getSiteConfig :: "SiteTreeItem \<Rightarrow> error + SiteConfigResource"
  isJavaRuntime :: "string option \<Rightarrow> bool"
  getArtifactTypeByJavaRuntime :: "string option \<Rightarrow> string"
  getDeployFsPath :: "target \<Rightarrow> string option \<Rightarrow> error + string"
  getContainingWorkspace :: "string \<Rightarrow> WorkspaceFolder option"
  getDefaultWebAppToDeploy :: "IDeployWizardContext \<Rightarrow> error + (SiteTreeItem option \<times> bool)"
  showTreeItemPicker :: "string \<Rightarrow> error + SiteTreeItem"
  createdNodes :: "SiteTreeItem list"
  WebAppTreeItem_contextValue :: string
  getRandomHexString :: string
  findFilesByFileExtension :: "string \<Rightarrow> string \<Rightarrow> error + string list"
  showQuickPick :: "string list \<Rightarrow> error + string"
  configureJavaSEAppSettings :: "SiteTreeItem \<Rightarrow> error + unit"
  pathExists :: "string \<Rightarrow> bool"
  deploymentFileName :: string
  LinuxRuntimes_node :: string
  LinuxRuntimes_python :: string
  promptScmDoBuildDeploy :: "SiteTreeItem \<Rightarrow> string \<Rightarrow> string \<Rightarrow> error + unit"
  openTextDocument :: "string \<Rightarrow> error + unit"
  executeCommand :: "string \<Rightarrow> error + unit"
  runPreDeployTask :: "IDeployWizardContext \<Rightarrow> string \<Rightarrow> string option \<Rightarrow> error + unit"
  appservice_deploy :: "SiteTreeItem \<Rightarrow> string \<Rightarrow> error + unit"

text \<open>
  Modelled from the spec: \<^verbatim>\<open>await updateWorkspaceSetting(key, value, fsPath)\<close> of
  vsCodeConfig/settings.ts, the spec's \<^verbatim>\<open>set(key, value, scope)\<close>. Whether the host
  accepts the write is the parameter \<open>writeSetting\<close>. The spec has failed preference
  writes and does not tell them from an absent preference on the next run: a write that
  fails stores nothing, and the caller sees it throw.
\<close>

definition updateWorkspaceSetting ::
  "env \<Rightarrow> string \<Rightarrow> setting_value \<Rightarrow> string \<Rightarrow> world \<Rightarrow> (error + unit) \<times> world" where
  "updateWorkspaceSetting env key val fsPath' w =
     (case writeSetting env key val fsPath' of
        Inl e \<Rightarrow> (Inl e, emit (UpdateWorkspaceSettingFailed key val fsPath') w)
      | Inr u \<Rightarrow>
          (Inr (),
           emit (UpdateWorkspaceSetting key val fsPath')
             (w\<lparr>settings := (settings w)(fsPath' := (settings w fsPath')(key \<mapsto> val))\<rparr>)))"

section \<open>setPreDeployTaskForDotnet.ts\<close>

subsection \<open>The two regular expressions\<close>

text \<open>
  The strings of the model are lists of 8-bit characters. Case-insensitive matching of
  the letters of \<^verbatim>\<open>.csproj\<close> folds the ASCII capitals only, as the \<^verbatim>\<open>i\<close> flag
  does for these letters.
\<close>

definition toLowerASCII :: "char \<Rightarrow> char" where
  "toLowerASCII c =
     (case map_of (zip ''ABCDEFGHIJKLMNOPQRSTUVWXYZ'' ''abcdefghijklmnopqrstuvwxyz'') c of
        None \<Rightarrow> c
      | Some l \<Rightarrow> l)"

text \<open>\<^verbatim>\<open>/\.csproj$/i.test(f)\<close>: the last seven characters are \<^verbatim>\<open>.csproj\<close> in any case.\<close>

definition isCsproj :: "string \<Rightarrow> bool" where
  "isCsproj f =
     (length ''.csproj'' \<le> length f \<and>
      map toLowerASCII (drop (length f - length ''.csproj'') f) = ''.csproj'')"

fun startsWith :: "string \<Rightarrow> string \<Rightarrow> bool" where
  "startsWith s [] = True"
| "startsWith [] (p # ps) = False"
| "startsWith (c # cs) (p # ps) = (c = p \<and> startsWith cs ps)"

text \<open>
  The dot of a regular expression matches every character but a line terminator; of
  these the 8-bit alphabet has line feed and carriage return.
\<close>

definition lineTerminator :: "char \<Rightarrow> bool" where
  "lineTerminator c = (c = CHR 0x0A \<or> c = CHR 0x0D)"

text \<open>
  \<^verbatim>\<open>(.*)\<close> followed by the text \<open>closing\<close>, matched at the head of the input: the
  star is greedy, so the longest run of characters of one line that \<open>closing\<close>
  follows is captured.
\<close>

fun greedyCapture :: "string \<Rightarrow> string \<Rightarrow> string option" where
  "greedyCapture closing [] = (if startsWith [] closing then Some [] else None)"
| "greedyCapture closing (c # cs) =
     (case (if lineTerminator c then None else greedyCapture closing cs) of
        Some captured \<Rightarrow> Some (c # captured)
      | None \<Rightarrow> if startsWith (c # cs) closing then Some [] else None)"

text \<open>
  \<^verbatim>\<open>projContents.match(/<TargetFramework>(.*)<\/TargetFramework>/)\<close>, and then
  \<^verbatim>\<open>matches[1]\<close>: the match that starts leftmost, \<open>None\<close> when there is none.
\<close>

fun matchTargetFramework :: "string \<Rightarrow> string option" where
  "matchTargetFramework [] = None"
| "matchTargetFramework (c # cs) =
     (if startsWith (c # cs) ''<TargetFramework>''
      then (case greedyCapture ''</TargetFramework>''
                   (drop (length ''<TargetFramework>'') (c # cs)) of
              Some captured \<Rightarrow> Some captured
            | None \<Rightarrow> matchTargetFramework cs)
      else matchTargetFramework cs)"

text \<open>\<^verbatim>\<open>Number.prototype.toString()\<close> of a length: its decimal digits.\<close>

fun toString :: "nat \<Rightarrow> string" where
  "toString n =
     (if n < 10 then [''0123456789'' ! n]
      else toString (n div 10) @ [''0123456789'' ! (n mod 10)])"

declare toString.simps [simp del]

subsection \<open>Looking for the project file\<close>

text \<open>The inner function \<open>checkFolderForCsproj\<close> of \<open>tryGetCsprojFile\<close>.\<close>

definition checkFolderForCsproj :: "env \<Rightarrow> string \<Rightarrow> world \<Rightarrow> (error + string list) \<times> world" where
  "checkFolderForCsproj env filePath w =
     (let w1 = emit (FsReaddir filePath) w
      in case readdir env filePath of
           Inl e \<Rightarrow> (Inl e, w1)
         | Inr files \<Rightarrow>
             (Inr (filter isCsproj (map (\<lambda>f. path_join env [filePath, f]) files)), w1))"

text \<open>
  \<^verbatim>\<open>await Promise.all(subfolders.map(async folder => ...))\<close>. Each callback tests one
  entry of the folder and appends what it finds to \<open>projectFiles\<close>. The callbacks are
  taken here one after the other in the order of the entries; the order in which the
  host completes them decides the order of \<open>projectFiles\<close> and of the trace only, and
  the function uses the length of \<open>projectFiles\<close> and its element when it has just one.
  The first callback that throws makes the whole call throw.
\<close>

fun scanSubfolders ::
  "env \<Rightarrow> string \<Rightarrow> string list \<Rightarrow> string list \<Rightarrow> world \<Rightarrow> (error + string list) \<times> world" where
  "scanSubfolders env projectPath [] projectFiles w = (Inr projectFiles, w)"
| "scanSubfolders env projectPath (folder # folders) projectFiles w =
     (let filePath = path_join env [projectPath, folder];
          w1 = emit (FsExistsSync filePath) w
      in if \<not> existsSync env filePath
         then scanSubfolders env projectPath folders projectFiles w1
         else let w2 = emit (FsStat filePath) w1
              in case stat_isDirectory env filePath of
                   Inl e \<Rightarrow> (Inl e, w2)
                 | Inr isDir \<Rightarrow>
                     if \<not> isDir then scanSubfolders env projectPath folders projectFiles w2
                     else (case checkFolderForCsproj env filePath w2 of
                             (Inl e, w3) \<Rightarrow> (Inl e, w3)
                           | (Inr found, w3) \<Rightarrow>
                               scanSubfolders env projectPath folders (projectFiles @ found) w3))"

text \<open>
  The first part of \<open>tryGetCsprojFile\<close>, up to the telemetry line: the project files of
  the folder or, when it has none, of the folders one level below.
\<close>

definition findProjectFiles :: "env \<Rightarrow> string \<Rightarrow> world \<Rightarrow> (error + string list) \<times> world" where
  "findProjectFiles env projectPath w =
     (case checkFolderForCsproj env projectPath w of
        (Inl e, w1) \<Rightarrow> (Inl e, w1)
      | (Inr projectFiles, w1) \<Rightarrow>
          if length projectFiles = 0
          then (let w2 = emit (FsReaddir projectPath) w1
                in case readdir env projectPath of
                     Inl e \<Rightarrow> (Inl e, w2)
                   | Inr subfolders \<Rightarrow> scanSubfolders env projectPath subfolders projectFiles w2)
          else (Inr projectFiles, w1))"

definition tryGetCsprojFile :: "env \<Rightarrow> string \<Rightarrow> world \<Rightarrow> (error + string option) \<times> world" where
  "tryGetCsprojFile env projectPath w =
     (case findProjectFiles env projectPath w of
        (Inl e, w1) \<Rightarrow> (Inl e, w1)
      | (Inr projectFiles, w1) \<Rightarrow>
          (let w2 = setTelemetry ''numOfCsprojFiles'' (toString (length projectFiles)) w1
           in (Inr (if length projectFiles = 1 then Some (projectFiles ! 0) else None), w2)))"

definition tryGetTargetFramework :: "env \<Rightarrow> string \<Rightarrow> world \<Rightarrow> (error + string option) \<times> world" where
  "tryGetTargetFramework env projFilePath w =
     (let w1 = emit (FsReadFile projFilePath) w
      in case readFile env projFilePath of
           Inl e \<Rightarrow> (Inl e, w1)
         | Inr projContents \<Rightarrow> (Inr (matchTargetFramework projContents), w1))"

subsection \<open>The generated tasks\<close>

definition generateDotnetTasks :: "env \<Rightarrow> string \<Rightarrow> ITask list" where
  "generateDotnetTasks env subfolder =
     (let cwd = path_posix_join env [''${workspaceFolder}'', subfolder];
          buildTask = \<lparr>label = Some ''build'', command = ''dotnet'', task_type = ''process'',
            args = [''build'', cwd, ''/property:GenerateFullPaths=true'',
                    ''/consoleloggerparameters:NoSummary''],
            problemMatcher = ''$msCompile''\<rparr>;
          publishTask = \<lparr>label = Some ''publish'', command = ''dotnet'', task_type = ''process'',
            args = [''publish'', cwd, ''/property:GenerateFullPaths=true'',
                    ''/consoleloggerparameters:NoSummary''],
            problemMatcher = ''$msCompile''\<rparr>;
          watchTask = \<lparr>label = Some ''watch'', command = ''dotnet'', task_type = ''process'',
            args = [''watch'', ''run'', cwd, ''/property:GenerateFullPaths=true'',
                    ''/consoleloggerparameters:NoSummary''],
            problemMatcher = ''$msCompile''\<rparr>
      in [buildTask, publishTask, watchTask])"

subsection \<open>setPreDeployTaskForDotnet\<close>

definition preDeployTaskSetting :: string where
  "preDeployTaskSetting = ''preDeployTask''"

definition showPreDeployWarningSetting :: string where
  "showPreDeployWarningSetting = ''showPreDeployWarning''"

definition dontShowAgainButton :: message_item where
  "dontShowAgainButton = MessageItem ''No, and don't show again''"

definition notConfiguredForDeploy :: "IDeployWizardContext \<Rightarrow> string" where
  "notConfiguredForDeploy context =
     ''Required assets to build and deploy are missing from \"'' @ name (workspace context) @
     ''\"? Add them?''"

text \<open>
  The body of the \<^verbatim>\<open>else\<close> of the prompt: the two settings, one awaited write after
  the other, then the new \<open>deployFsPath\<close> and the tasks. A write that throws ends the
  function there.
\<close>

definition addDotnetDefaults ::
  "env \<Rightarrow> IDeployWizardContext \<Rightarrow> string \<Rightarrow> string \<Rightarrow> world \<Rightarrow>
   (error + unit) \<times> IDeployWizardContext \<times> world" where
  "addDotnetDefaults env context csprojFile targetFramework w =
     (let workspaceFspath = fsPath (workspace context);
          subfolder = path_dirname env (path_relative env workspaceFspath csprojFile);
          deploySubpath =
            path_posix_join env [subfolder, ''bin'', ''Release'', targetFramework, ''publish'']
      in case updateWorkspaceSetting env preDeployTaskSetting (SString ''publish'') workspaceFspath w of
           (Inl e, w1) \<Rightarrow> (Inl e, context, w1)
         | (Inr u, w1) \<Rightarrow>
             (case updateWorkspaceSetting env deploySubpathSetting (SString deploySubpath)
                     workspaceFspath w1 of
                (Inl e, w2) \<Rightarrow> (Inl e, context, w2)
              | (Inr u', w2) \<Rightarrow>
                  (let context' = context\<lparr>deployFsPath := path_join env [workspaceFspath, deploySubpath]\<rparr>;
                       existingTasks = getTasks (workspace context') w2;
                       dotnetTasks =
                         filter (\<lambda>t1. List.find (\<lambda>t2. label t1 = label t2) existingTasks = None)
                           (generateDotnetTasks env subfolder);
                       newTasks = existingTasks @ dotnetTasks
                   in (Inr (), context', updateTasks (workspace context') newTasks w2))))"

definition setPreDeployTaskForDotnet ::
  "env \<Rightarrow> IDeployWizardContext \<Rightarrow> world \<Rightarrow> (error + unit) \<times> IDeployWizardContext \<times> world" where
  "setPreDeployTaskForDotnet env context w =
     (let workspaceFspath = fsPath (workspace context)
      in if \<not> truthy (getWorkspaceSetting showPreDeployWarningSetting workspaceFspath w)
            \<or> truthy (getWorkspaceSetting preDeployTaskSetting workspaceFspath w)
            \<or> truthy (getWorkspaceSetting deploySubpathSetting workspaceFspath w)
         then (Inr (), context, w)
         else if \<not> isPathEqual env (deployFsPath context) workspaceFspath
         then (Inr (), context, w)
         else (case tryGetCsprojFile env workspaceFspath w of
                 (Inl e, w1) \<Rightarrow> (Inl e, context, w1)
               | (Inr None, w1) \<Rightarrow> (Inr (), context, w1)
               | (Inr (Some csprojFile), w1) \<Rightarrow>
                   if csprojFile = [] then (Inr (), context, w1)
                   else (case tryGetTargetFramework env csprojFile w1 of
                           (Inl e, w2) \<Rightarrow> (Inl e, context, w2)
                         | (Inr targetFramework, w2) \<Rightarrow>
                             (case targetFramework of
                                None \<Rightarrow> (Inr (), context, setTelemetry ''tfw'' ''N/A'' w2)
                              | Some tfw \<Rightarrow>
                                  if tfw = [] then (Inr (), context, setTelemetry ''tfw'' ''N/A'' w2)
                                  else (let w3 = setTelemetry ''tfw'' tfw w2;
                                            items = [DialogResponses_yes env, dontShowAgainButton];
                                            w4 = emit (ShowWarningMessage (notConfiguredForDeploy context) items) w3
                                        in case showWarningMessage env (notConfiguredForDeploy context) items of
                                             Inl e \<Rightarrow> (Inl e, context, w4)
                                           | Inr input \<Rightarrow>
                                               if input = dontShowAgainButton
                                               then (case updateWorkspaceSetting env
                                                            showPreDeployWarningSetting (SBool False)
                                                            workspaceFspath w4 of
                                                       (r, w5) \<Rightarrow> (r, context, w5))
                                               else addDotnetDefaults env context csprojFile tfw w4)))))"

section \<open>deploy.ts\<close>

subsection \<open>Before the target is known\<close>

definition noWorkspaceError :: error where
  "noWorkspaceError =
     Error ''Failed to deploy because the path is not part of an open workspace. Open in a workspace and try again.''"

text \<open>
  \<^verbatim>\<open>if (target instanceof SiteTreeItem)\<close>: the node and its site configuration, when the
  command was started from a node of the tree.
\<close>

definition getEarlySiteConfig ::
  "env \<Rightarrow> target \<Rightarrow> world \<Rightarrow> (error + SiteTreeItem option \<times> SiteConfigResource option) \<times> world" where
  "getEarlySiteConfig env target' w =
     (case target' of
        NodeTarget node \<Rightarrow>
          (let w1 = emit (GetSiteConfig (fullId node)) w
           in case getSiteConfig env node of
                Inl e \<Rightarrow> (Inl e, w1)
              | Inr siteConfig \<Rightarrow> (Inr (Some node, Some siteConfig), w1))
      | _ \<Rightarrow> (Inr (None, None), w))"

definition javaFileExtension :: "env \<Rightarrow> SiteConfigResource option \<Rightarrow> string option" where
  "javaFileExtension env siteConfig =
     (case siteConfig of
        None \<Rightarrow> None
      | Some sc \<Rightarrow>
          if isJavaRuntime env (linuxFxVersion sc)
          then Some (getArtifactTypeByJavaRuntime env (linuxFxVersion sc))
          else None)"

text \<open>The path to deploy, its workspace folder, and the context built from them.\<close>

definition getDeployContext ::
  "env \<Rightarrow> target \<Rightarrow> SiteConfigResource option \<Rightarrow> world \<Rightarrow> (error + IDeployWizardContext) \<times> world" where
  "getDeployContext env target' siteConfig w =
     (let w1 = emit GetDeployFsPath w
      in case getDeployFsPath env target' (javaFileExtension env siteConfig) of
           Inl e \<Rightarrow> (Inl e, w1)
         | Inr deployFsPath' \<Rightarrow>
             (case getContainingWorkspace env deployFsPath' of
                None \<Rightarrow> (Inl noWorkspaceError, w1)
              | Some workspace' \<Rightarrow>
                  (Inr \<lparr>workspace = workspace', deployFsPath = deployFsPath',
                        deployedWithConfigs = False\<rparr>, w1)))"

text \<open>
  \<^verbatim>\<open>if (!node) { ... }\<close>: the default target or, without one, the picker, between the
  registration of the listener and its disposal. \<open>getDefaultWebAppToDeploy\<close> answers with
  the node, if it has one, and with the \<open>deployedWithConfigs\<close> it has left in the context.
\<close>

definition pickNode ::
  "env \<Rightarrow> IDeployWizardContext \<Rightarrow> world \<Rightarrow> (error + SiteTreeItem \<times> IDeployWizardContext) \<times> world" where
  "pickNode env deployContext w =
     (let w1 = emit GetDefaultWebAppToDeploy (emit OnTreeItemCreate w);
          tried =
            (case getDefaultWebAppToDeploy env deployContext of
               Inl err2 \<Rightarrow> (Inl err2, w1)
             | Inr (Some node, configs) \<Rightarrow>
                 (Inr (node, deployContext\<lparr>deployedWithConfigs := configs\<rparr>), w1)
             | Inr (None, configs) \<Rightarrow>
                 (let w2 = emit (ShowTreeItemPicker (WebAppTreeItem_contextValue env)) w1
                  in case showTreeItemPicker env (WebAppTreeItem_contextValue env) of
                       Inl err2 \<Rightarrow> (Inl err2, w2)
                     | Inr node \<Rightarrow>
                         (Inr (node, deployContext\<lparr>deployedWithConfigs := configs\<rparr>), w2)))
      in case tried of
           (Inl err2, w3) \<Rightarrow>
             (Inl err2,
              emit Dispose
                (if err2 = UserCancelledError
                 then setTelemetry ''cancelStep''
                        (''showTreeItemPicker:'' @ WebAppTreeItem_contextValue env) w3
                 else w3))
         | (Inr picked, w3) \<Rightarrow> (Inr picked, emit Dispose w3))"

subsection \<open>Once the target is known\<close>

text \<open>
  \<^verbatim>\<open>for (const newApp of newNodes)\<close>: a node created while the target was picked, and
  picked, switches the confirmation off. Its site configuration is asked for without
  waiting; the answer goes to the telemetry only, after this function has moved on.
\<close>

fun newNodesLoop :: "SiteTreeItem list \<Rightarrow> SiteTreeItem \<Rightarrow> bool \<Rightarrow> world \<Rightarrow> bool \<times> world" where
  "newNodesLoop [] node confirmDeployment w = (confirmDeployment, w)"
| "newNodesLoop (newApp # rest) node confirmDeployment w =
     (if fullId newApp = fullId node
      then newNodesLoop rest node False (emit (GetSiteConfigDetached (fullId newApp)) w)
      else newNodesLoop rest node confirmDeployment w)"

definition fetchSiteConfig ::
  "env \<Rightarrow> SiteConfigResource option \<Rightarrow> SiteTreeItem \<Rightarrow> world \<Rightarrow> (error + SiteConfigResource) \<times> world" where
  "fetchSiteConfig env siteConfig node w =
     (case siteConfig of
        Some sc \<Rightarrow> (Inr sc, w)
      | None \<Rightarrow>
          (let w1 = emit (GetSiteConfig (fullId node)) w
           in case getSiteConfig env node of
                Inl e \<Rightarrow> (Inl e, w1)
              | Inr sc \<Rightarrow> (Inr sc, w1)))"

text \<open>\<^verbatim>\<open>if (javaUtils.isJavaRuntime(siteConfig.linuxFxVersion)) { ... }\<close>\<close>

definition javaArtifactStep ::
  "env \<Rightarrow> SiteTreeItem \<Rightarrow> SiteConfigResource \<Rightarrow> IDeployWizardContext \<Rightarrow> world \<Rightarrow>
   (error + IDeployWizardContext) \<times> world" where
  "javaArtifactStep env node siteConfig deployContext w =
     (if isJavaRuntime env (linuxFxVersion siteConfig)
      then (let artifactType = getArtifactTypeByJavaRuntime env (linuxFxVersion siteConfig);
                w1 = emit (FindFilesByFileExtension (deployFsPath deployContext) artifactType) w
            in case findFilesByFileExtension env (deployFsPath deployContext) artifactType of
                 Inl e \<Rightarrow> (Inl e, w1)
               | Inr javaArtifactFiles \<Rightarrow>
                   (case (if length javaArtifactFiles > 0
                          then (let w2 = emit (ShowQuickPick javaArtifactFiles) w1
                                in case showQuickPick env javaArtifactFiles of
                                     Inl e \<Rightarrow> (Inl e, w2)
                                   | Inr picked \<Rightarrow>
                                       (Inr (deployContext\<lparr>deployFsPath := picked\<rparr>), w2))
                          else (Inr deployContext, w1)) of
                      (Inl e, w3) \<Rightarrow> (Inl e, w3)
                    | (Inr deployContext', w3) \<Rightarrow>
                        (let w4 = emit (ConfigureJavaSEAppSettings (fullId node)) w3
                         in case configureJavaSEAppSettings env node of
                              Inl e \<Rightarrow> (Inl e, w4)
                            | Inr u \<Rightarrow> (Inr deployContext', w4))))
      else (Inr deployContext, w))"

text \<open>\<^verbatim>\<open>await node.promptScmDoBuildDeploy(fsPath, runtime, context)\<close>\<close>

definition awaitPromptScmDoBuildDeploy ::
  "env \<Rightarrow> SiteTreeItem \<Rightarrow> string \<Rightarrow> string \<Rightarrow> world \<Rightarrow> (error + unit) \<times> world" where
  "awaitPromptScmDoBuildDeploy env node workspaceFspath runtime w =
     (let w1 = emit (PromptScmDoBuildDeploy (fullId node) runtime) w
      in case promptScmDoBuildDeploy env node workspaceFspath runtime of
           Inl e \<Rightarrow> (Inl e, w1)
         | Inr u \<Rightarrow> (Inr (), w1))"

text \<open>
  \<^verbatim>\<open>if (getWorkspaceSetting(showBuildDuringDeployPrompt, ...)) { ... }\<close>. The
  \<^verbatim>\<open>&&\<close> chain stops at its first false operand, so the file is looked for only on
  a Linux site with \<^verbatim>\<open>scmType === 'None'\<close>.
\<close>

definition buildDuringDeployStep ::
  "env \<Rightarrow> SiteTreeItem \<Rightarrow> SiteConfigResource \<Rightarrow> IDeployWizardContext \<Rightarrow> world \<Rightarrow>
   (error + unit) \<times> world" where
  "buildDuringDeployStep env node siteConfig deployContext w =
     (let workspaceFspath = fsPath (workspace deployContext)
      in if truthy (getWorkspaceSetting showBuildDuringDeployPromptSetting workspaceFspath w)
         then (case linuxFxVersion siteConfig of
                 None \<Rightarrow> (Inr (), w)
               | Some fx \<Rightarrow>
                   if fx = [] \<or> scmType siteConfig \<noteq> Some ''None'' then (Inr (), w)
                   else (let deploymentFile = path_join env [workspaceFspath, deploymentFileName env];
                             w1 = emit (PathExists deploymentFile) w
                         in if pathExists env deploymentFile then (Inr (), w1)
                            else (let linuxFxVersion' = map toLowerASCII fx
                                  in if startsWith linuxFxVersion' (LinuxRuntimes_node env)
                                     then (awaitPromptScmDoBuildDeploy env node workspaceFspath (LinuxRuntimes_node env) w1)
                                     else if startsWith linuxFxVersion' (LinuxRuntimes_python env)
                                     then (awaitPromptScmDoBuildDeploy env node workspaceFspath (LinuxRuntimes_python env) w1)
                                     else (Inr (), w1))))
         else (Inr (), w))"

subsection \<open>The confirmation\<close>

text \<open>
  A JavaScript value of one of the two kinds that the condition of the confirmation
  compares: the site configuration, an object, and a member of \<open>ScmType\<close>, a string.
  \<^verbatim>\<open>!==\<close> between an object and a string holds always.
\<close>

datatype js_value = JsObject SiteConfigResource | JsString string

definition strictNotEqual :: "js_value \<Rightarrow> js_value \<Rightarrow> bool" where
  "strictNotEqual a b = (a \<noteq> b)"

definition resetDefault :: message_item where
  "resetDefault = MessageItem ''Reset default''"

definition warning :: "SiteTreeItem \<Rightarrow> string" where
  "warning node =
     ''Are you sure you want to deploy to \"'' @ fullName node @
     ''\"? This will overwrite any previous deployment and cannot be undone.''"

text \<open>How the confirmation ends when it does not throw: go on, or the early \<^verbatim>\<open>return\<close>.\<close>

datatype confirmation = Proceed | Returned

definition confirmStep ::
  "env \<Rightarrow> bool \<Rightarrow> SiteTreeItem \<Rightarrow> SiteConfigResource \<Rightarrow> IDeployWizardContext \<Rightarrow> world \<Rightarrow>
   (error + confirmation) \<times> world" where
  "confirmStep env confirmDeployment node siteConfig deployContext w =
     (if confirmDeployment \<and> scmType siteConfig \<noteq> Some ScmType_LocalGit \<and>
         strictNotEqual (JsObject siteConfig) (JsString ScmType_GitHub)
      then (let w1 = setTelemetry ''cancelStep'' ''confirmDestructiveDeployment'' w;
                items = [AppServiceDialogResponses_deploy env] @
                        (if deployedWithConfigs deployContext then [resetDefault] else []) @
                        [DialogResponses_cancel env];
                w2 = emit (ShowWarningMessage (warning node) items) (emit (Delay 500) w1)
            in case showWarningMessage env (warning node) items of
                 Inl e \<Rightarrow> (Inl e, w2)
               | Inr result \<Rightarrow>
                   if result = resetDefault
                   then (let settingsPath =
                               path_join env [fsPath (workspace deployContext), ''.vscode'', ''settings.json''];
                             w3 = emit (OpenTextDocument settingsPath) w2
                         in case openTextDocument env settingsPath of
                              Inl e \<Rightarrow> (Inl e, w3)
                            | Inr doc \<Rightarrow>
                                (case updateWorkspaceSetting env defaultWebAppToDeploySetting
                                        (SString []) (fsPath (workspace deployContext))
                                        (emit (ShowTextDocument settingsPath) w3) of
                                   (Inl e, w5) \<Rightarrow> (Inl e, w5)
                                 | (Inr u, w5) \<Rightarrow>
                                     (let w6 = emit (ExecuteCommand ''appService.Deploy'') w5
                                      in case executeCommand env ''appService.Deploy'' of
                                           Inl e \<Rightarrow> (Inl e, w6)
                                         | Inr u' \<Rightarrow> (Inr Returned, w6))))
                   else (Inr Proceed, setTelemetry ''cancelStep'' [] w2))
      else (Inr Proceed, w))"

subsection \<open>The transfer\<close>

definition deployComplete :: "SiteTreeItem \<Rightarrow> string" where
  "deployComplete node = ''Deployment to \"'' @ fullName node @ ''\" completed.''"

text \<open>
  From \<^verbatim>\<open>if (!deployContext.deployedWithConfigs)\<close> to the end. The prompt to save
  the defaults, the final message and the validation of the site are started and not
  waited for.
\<close>

definition transferStep ::
  "env \<Rightarrow> SiteTreeItem \<Rightarrow> SiteConfigResource \<Rightarrow> IDeployWizardContext \<Rightarrow> string \<Rightarrow> world \<Rightarrow>
   (error + unit) \<times> world" where
  "transferStep env node siteConfig deployContext correlationId w =
     (let w1 = (if \<not> deployedWithConfigs deployContext
                then emit (PromptToSaveDeployDefaults (fsPath (workspace deployContext))
                             (deployFsPath deployContext)) w
                else w);
          w2 = emit (RunPreDeployTask (deployFsPath deployContext) (scmType siteConfig)) w1
      in case runPreDeployTask env deployContext (deployFsPath deployContext) (scmType siteConfig) of
           Inl e \<Rightarrow> (Inl e, w2)
         | Inr u \<Rightarrow>
             (let w3 = emit (AppserviceDeploy (fullId node) (deployFsPath deployContext))
                         (emit (CancelWebsiteValidation (fullId node)) w2)
              in case appservice_deploy env node (deployFsPath deployContext) of
                   Inl e \<Rightarrow> (Inl e, w3)
                 | Inr u' \<Rightarrow>
                     (Inr (),
                      emit (ValidateWebSite correlationId (fullId node))
                        (emit (ShowInformationMessage (deployComplete node))
                           (emit (AppendLine (deployComplete node)) w3)))))"

subsection \<open>deploy\<close>

text \<open>The part of \<open>deploy\<close> from \<^verbatim>\<open>if (newNodes.length > 0)\<close> on.\<close>

definition deployToNode ::
  "env \<Rightarrow> bool \<Rightarrow> SiteTreeItem \<Rightarrow> SiteTreeItem list \<Rightarrow> SiteConfigResource option \<Rightarrow>
   IDeployWizardContext \<Rightarrow> world \<Rightarrow> (error + unit) \<times> world" where
  "deployToNode env confirmDeployment node newNodes siteConfig0 deployContext w =
     (case (if length newNodes > 0 then newNodesLoop newNodes node confirmDeployment w
            else (confirmDeployment, w)) of
        (confirmDeployment', w1) \<Rightarrow>
          (let correlationId = getRandomHexString env;
               w2 = setTelemetry ''correlationId'' correlationId w1
           in case fetchSiteConfig env siteConfig0 node w2 of
                (Inl e, w3) \<Rightarrow> (Inl e, w3)
              | (Inr siteConfig, w3) \<Rightarrow>
                  (case javaArtifactStep env node siteConfig deployContext w3 of
                     (Inl e, w4) \<Rightarrow> (Inl e, w4)
                   | (Inr deployContext', w4) \<Rightarrow>
                       (case buildDuringDeployStep env node siteConfig deployContext' w4 of
                          (Inl e, w5) \<Rightarrow> (Inl e, w5)
                        | (Inr u, w5) \<Rightarrow>
                            (case confirmStep env confirmDeployment' node siteConfig deployContext' w5 of
                               (Inl e, w6) \<Rightarrow> (Inl e, w6)
                             | (Inr Returned, w6) \<Rightarrow> (Inr (), w6)
                             | (Inr Proceed, w6) \<Rightarrow>
                                 transferStep env node siteConfig deployContext' correlationId w6)))))"

text \<open>
  The nodes that \<^verbatim>\<open>onTreeItemCreate\<close> reports are those created while the listener is
  registered, that is, while the target is picked; started from a node, \<open>deploy\<close>
  registers no listener and \<open>newNodes\<close> stays empty.
\<close>

definition deploy :: "env \<Rightarrow> bool \<Rightarrow> target \<Rightarrow> world \<Rightarrow> (error + unit) \<times> world" where
  "deploy env confirmDeployment target' w =
     (case getEarlySiteConfig env target' (setTelemetry ''deployedWithConfigs'' ''false'' w) of
        (Inl e, w1) \<Rightarrow> (Inl e, w1)
      | (Inr (node0, siteConfig0), w1) \<Rightarrow>
          (case getDeployContext env target' siteConfig0 w1 of
             (Inl e, w2) \<Rightarrow> (Inl e, w2)
           | (Inr deployContext, w2) \<Rightarrow>
               (case node0 of
                  Some node \<Rightarrow> deployToNode env confirmDeployment node [] siteConfig0 deployContext w2
                | None \<Rightarrow>
                    (case pickNode env deployContext w2 of
                       (Inl e, w3) \<Rightarrow> (Inl e, w3)
                     | (Inr (node, deployContext'), w3) \<Rightarrow>
                         deployToNode env confirmDeployment node (createdNodes env) siteConfig0
                           deployContext' w3))))"

section \<open>Reading a trace\<close>

text \<open>What an invocation has added to the trace.\<close>

definition events_since :: "world \<Rightarrow> world \<Rightarrow> event list" where
  "events_since w w' = drop (length (trace w)) (trace w')"

definition isFsRead :: "event \<Rightarrow> bool" where
  "isFsRead e = (case e of FsReaddir p \<Rightarrow> True | FsExistsSync p \<Rightarrow> True | FsStat p \<Rightarrow> True
                 | FsReadFile p \<Rightarrow> True | _ \<Rightarrow> False)"

definition isPrompt :: "event \<Rightarrow> bool" where
  "isPrompt e = (case e of ShowWarningMessage m items \<Rightarrow> True | _ \<Rightarrow> False)"

text \<open>A write of a setting, stored or refused.\<close>

definition isSettingWrite :: "event \<Rightarrow> bool" where
  "isSettingWrite e =
     (case e of UpdateWorkspaceSetting k v p \<Rightarrow> True | UpdateWorkspaceSettingFailed k v p \<Rightarrow> True
      | _ \<Rightarrow> False)"

text \<open>A write of the setting \<open>key\<close> that the host refused.\<close>

definition failsSetting :: "string \<Rightarrow> event \<Rightarrow> bool" where
  "failsSetting key e = (case e of UpdateWorkspaceSettingFailed k v p \<Rightarrow> k = key | _ \<Rightarrow> False)"

text \<open>A write of the setting \<open>key\<close> that was stored.\<close>

definition writesSetting :: "string \<Rightarrow> event \<Rightarrow> bool" where
  "writesSetting key e = (case e of UpdateWorkspaceSetting k v p \<Rightarrow> k = key | _ \<Rightarrow> False)"

definition isTaskWrite :: "event \<Rightarrow> bool" where
  "isTaskWrite e = (case e of UpdateTasks p ts \<Rightarrow> True | _ \<Rightarrow> False)"

text \<open>The calls that go to the cloud service.\<close>

definition isRemoteCall :: "event \<Rightarrow> bool" where
  "isRemoteCall e =
     (case e of GetSiteConfig i \<Rightarrow> True | GetSiteConfigDetached i \<Rightarrow> True
      | ConfigureJavaSEAppSettings i \<Rightarrow> True | PromptScmDoBuildDeploy i r \<Rightarrow> True
      | AppserviceDeploy i p \<Rightarrow> True | ValidateWebSite c i \<Rightarrow> True | _ \<Rightarrow> False)"

definition isPreDeployOrTransfer :: "event \<Rightarrow> bool" where
  "isPreDeployOrTransfer e =
     (case e of RunPreDeployTask p s \<Rightarrow> True | AppserviceDeploy i p \<Rightarrow> True | _ \<Rightarrow> False)"

text \<open>The events of \<open>deploy\<close> up to the confirmation.\<close>

definition beforeConfirmation :: "event \<Rightarrow> bool" where
  "beforeConfirmation e =
     (case e of GetSiteConfig i \<Rightarrow> True | GetSiteConfigDetached i \<Rightarrow> True | GetDeployFsPath \<Rightarrow> True
      | OnTreeItemCreate \<Rightarrow> True | GetDefaultWebAppToDeploy \<Rightarrow> True | ShowTreeItemPicker c \<Rightarrow> True
      | Dispose \<Rightarrow> True | FindFilesByFileExtension p x \<Rightarrow> True | ShowQuickPick fs \<Rightarrow> True
      | ConfigureJavaSEAppSettings i \<Rightarrow> True | PathExists p \<Rightarrow> True
      | PromptScmDoBuildDeploy i r \<Rightarrow> True | _ \<Rightarrow> False)"

text \<open>
  \<open>readsOnly w w'\<close>: from \<open>w\<close> to \<open>w'\<close> the settings and the tasks are the same, and
  the trace has grown by reads of the file system only.
\<close>

definition readsOnly :: "world \<Rightarrow> world \<Rightarrow> bool" where
  "readsOnly w w' =
     (settings w' = settings w \<and> tasks w' = tasks w \<and>
      (\<exists>evs. trace w' = trace w @ evs \<and> list_all isFsRead evs))"

text \<open>
  \<open>quietlyTo w w'\<close>: from \<open>w\<close> to \<open>w'\<close> the settings are the same, and the trace has
  grown by events that come before the confirmation only.
\<close>

definition quietlyTo :: "world \<Rightarrow> world \<Rightarrow> bool" where
  "quietlyTo w w' =
     (settings w' = settings w \<and>
      (\<exists>evs. trace w' = trace w @ evs \<and> list_all beforeConfirmation evs))"

text \<open>The event of the prompt of \<open>setPreDeployTaskForDotnet\<close>.\<close>

definition promptEvent :: "env \<Rightarrow> IDeployWizardContext \<Rightarrow> event" where
  "promptEvent env context =
     ShowWarningMessage (notConfiguredForDeploy context) [DialogResponses_yes env, dontShowAgainButton]"

section \<open>A sample host\<close>

text \<open>
  A workspace \<^verbatim>\<open>/ws\<close> with one project file, a site that is neither Java nor Linux,
  a user who presses the first button of every dialog, and settings that can be written.
  The path functions stand in for Node's on the paths that occur here, which have no
  \<^verbatim>\<open>..\<close> and no doubled or trailing \<^verbatim>\<open>/\<close>: a join that leaves out the empty and
  the \<^verbatim>\<open>.\<close> parts and puts \<^verbatim>\<open>/\<close> between the others (\<^verbatim>\<open>.\<close> when none is left),
  the rest of a path below a folder, and the folder of a relative path.
\<close>

definition joinPath :: "string list \<Rightarrow> string" where
  "joinPath parts =
     (case filter (\<lambda>p. p \<noteq> [] \<and> p \<noteq> ''.'') parts of
        [] \<Rightarrow> ''.''
      | p # ps \<Rightarrow> foldl (\<lambda>joined q. joined @ ''/'' @ q) p ps)"

definition relativePath :: "string \<Rightarrow> string \<Rightarrow> string" where
  "relativePath from to = drop (length from + 1) to"

definition dirnamePath :: "string \<Rightarrow> string" where
  "dirnamePath p =
     (if CHR ''/'' \<in> set p then rev (tl (dropWhile (\<lambda>c. c \<noteq> CHR ''/'') (rev p))) else ''.'')"

definition sampleFolder :: WorkspaceFolder where
  "sampleFolder = \<lparr>fsPath = ''/ws'', name = ''ws''\<rparr>"

definition sampleNode :: SiteTreeItem where
  "sampleNode = \<lparr>fullId = ''/subscriptions/s/sites/app'', fullName = ''app''\<rparr>"

definition sampleSiteConfig :: SiteConfigResource where
  "sampleSiteConfig = \<lparr>linuxFxVersion = None, scmType = Some ''None''\<rparr>"

definition sampleEnv :: env where
  "sampleEnv =
     \<lparr>readdir = (\<lambda>p. if p = ''/ws'' then Inr [''App.csproj'', ''README.md'']
                       else Inl (Error ''ENOENT'')),
      existsSync = (\<lambda>p. p = ''/ws/App.csproj'' \<or> p = ''/ws/README.md''),
      stat_isDirectory = (\<lambda>p. Inr False),
      readFile = (\<lambda>p. if p = ''/ws/App.csproj''
                        then Inr ''<Project><TargetFramework>net6.0</TargetFramework></Project>''
                        else Inl (Error ''ENOENT'')),
      path_join = joinPath,
      path_relative = relativePath,
      path_dirname = dirnamePath,
      path_posix_join = joinPath,
      isPathEqual = (\<lambda>a b. a = b),
      writeSetting = (\<lambda>key val p. Inr ()),
      showWarningMessage = (\<lambda>message items. Inr (hd items)),
      DialogResponses_yes = MessageItem ''Yes'',
      DialogResponses_cancel = MessageItem ''Cancel'',
      AppServiceDialogResponses_deploy = MessageItem ''Deploy'',
      getSiteConfig = (\<lambda>node. Inr sampleSiteConfig),
      isJavaRuntime = (\<lambda>fx. False),
      getArtifactTypeByJavaRuntime = (\<lambda>fx. ''jar''),
      getDeployFsPath = (\<lambda>t ext. case t of UriTarget p \<Rightarrow> Inr p | _ \<Rightarrow> Inr ''/ws''),
      getContainingWorkspace = (\<lambda>p. if p = ''/ws'' then Some sampleFolder else None),
      getDefaultWebAppToDeploy = (\<lambda>context. Inr (None, False)),
      showTreeItemPicker = (\<lambda>contextValue. Inr sampleNode),
      createdNodes = [],
      WebAppTreeItem_contextValue = ''appService'',
      getRandomHexString = ''c0ffee'',
      findFilesByFileExtension = (\<lambda>p ext. Inr []),
      showQuickPick = (\<lambda>files. Inr (hd files)),
      configureJavaSEAppSettings = (\<lambda>node. Inr ()),
      pathExists = (\<lambda>p. False),
      deploymentFileName = ''.deployment'',
      LinuxRuntimes_node = ''node'',
      LinuxRuntimes_python = ''python'',
      promptScmDoBuildDeploy = (\<lambda>node p runtime. Inr ()),
      openTextDocument = (\<lambda>p. Inr ()),
      executeCommand = (\<lambda>c. Inr ()),
      runPreDeployTask = (\<lambda>context p scm. Inr ()),
      appservice_deploy = (\<lambda>node p. Inr ())\<rparr>"

definition sampleContext :: IDeployWizardContext where
  "sampleContext = \<lparr>workspace = sampleFolder, deployFsPath = ''/ws'', deployedWithConfigs = False\<rparr>"

text \<open>
  A world with nothing configured but the warning switched on, as it is by default, and
  one task of the user's own, called \<^verbatim>\<open>build\<close>.
\<close>

definition sampleTask :: ITask where
  "sampleTask = \<lparr>label = Some ''build'', command = ''make'', task_type = ''shell'', args = [],
                  problemMatcher = []\<rparr>"

definition sampleWorld :: world where
  "sampleWorld =
     \<lparr>settings = (\<lambda>p. [showPreDeployWarningSetting \<mapsto> SBool True]),
      tasks = (\<lambda>p. [sampleTask]),
      telemetry = Map.empty,
      trace = []\<rparr>"

text \<open>The same world after the user has named a pre-deploy task.\<close>

definition configuredWorld :: world where
  "configuredWorld =
     sampleWorld\<lparr>settings :=
       (\<lambda>p. [showPreDeployWarningSetting \<mapsto> SBool True, preDeployTaskSetting \<mapsto> SString ''make''])\<rparr>"

text \<open>The sample world when the workspace names a default target.\<close>

definition defaultedWorld :: world where
  "defaultedWorld =
     sampleWorld\<lparr>settings :=
       (\<lambda>p. [showPreDeployWarningSetting \<mapsto> SBool True,
             defaultWebAppToDeploySetting \<mapsto> SString ''/subscriptions/s/sites/app''])\<rparr>"

text \<open>The same host when the settings file takes the first write and refuses the next.\<close>

definition refusingEnv :: env where
  "refusingEnv =
     sampleEnv\<lparr>writeSetting := (\<lambda>key val p. if key = deploySubpathSetting
                                              then Inl (Error ''Unable to write settings'')
                                              else Inr ())\<rparr>"

text \<open>The same host with two project files in the workspace folder.\<close>

definition twoProjectsEnv :: env where
  "twoProjectsEnv =
     sampleEnv\<lparr>readdir := (\<lambda>p. if p = ''/ws'' then Inr [''A.csproj'', ''b.CSPROJ'']
                                 else Inl (Error ''ENOENT''))\<rparr>"

text \<open>The same host when the workspace has a default target and the user presses Reset default.\<close>

definition resetEnv :: env where
  "resetEnv =
     sampleEnv\<lparr>showWarningMessage := (\<lambda>message items. Inr resetDefault),
               getDefaultWebAppToDeploy := (\<lambda>context. Inr (Some sampleNode, True))\<rparr>"

text \<open>The same, when the workspace has no settings file that could be opened.\<close>

definition unopenedEnv :: env where
  "unopenedEnv = resetEnv\<lparr>openTextDocument := (\<lambda>p. Inl (Error ''cannot open settings.json''))\<rparr>"

text \<open>The same host when the picked node was created while it was picked.\<close>

definition freshEnv :: env where
  "freshEnv = sampleEnv\<lparr>createdNodes := [sampleNode]\<rparr>"

text \<open>The same host with a site deployed from GitHub.\<close>

definition githubEnv :: env where
  "githubEnv =
     sampleEnv\<lparr>getSiteConfig :=
       (\<lambda>node. Inr \<lparr>linuxFxVersion = None, scmType = Some ScmType_GitHub\<rparr>)\<rparr>"

text \<open>The same host when the path to deploy is a folder outside the workspace.\<close>

definition elsewhereEnv :: env where
  "elsewhereEnv = sampleEnv\<lparr>getDeployFsPath := (\<lambda>t ext. Inr ''/elsewhere'')\<rparr>"

section \<open>Facts about parseAzureResourceId\<close>

lemma js_split_nonempty: "js_split sep s \<noteq> []"
  by (induction s) (auto split: list.splits)

lemma parseLoop_even:
  "even (length ps) \<Longrightarrow>
   parseLoop ps m =
     (if [] \<in> set ps then Inl invalidIdErr
      else Inr (fold (\<lambda>(k, v) r. assign r k v) (pairs ps) m))"
  by (induction ps m rule: parseLoop.induct) auto

lemma fold_assign:
  "fold (\<lambda>(k, v) r. assign r k v) kvs m =
   m ++ map_of (rev (filter (\<lambda>(k, v). k \<noteq> ''__proto__'') kvs))"
  by (induction kvs arbitrary: m) (auto simp: assign_def split: prod.splits)

text \<open>
  When the function throws: exactly on the inputs that the claim lists, and always with
  the one error.
\<close>

lemma parseAzureResourceId_throws_iff:
  "(\<exists>e. parseAzureResourceId resourceId = Inl e) \<longleftrightarrow>
     resourceId = [] \<or> length resourceId < 2 \<or> hd resourceId \<noteq> CHR ''/'' \<or>
     odd (length (js_split (CHR ''/'') (tl resourceId))) \<or>
     [] \<in> set (js_split (CHR ''/'') (tl resourceId))"
  by (auto simp: parseAzureResourceId_def Let_def parseLoop_even odd_iff_mod_2_eq_one
      split: if_splits)

lemma parseAzureResourceId_error:
  "parseAzureResourceId resourceId = Inl e \<Longrightarrow> e = invalidIdErr"
  by (auto simp: parseAzureResourceId_def Let_def parseLoop_even split: if_splits)

text \<open>What it returns: the pairs whose key is not \<^verbatim>\<open>__proto__\<close>.\<close>

lemma parseAzureResourceId_result:
  "parseAzureResourceId resourceId = Inr result \<Longrightarrow>
   result = map_of (rev (filter (\<lambda>(k, v). k \<noteq> ''__proto__'')
                           (pairs (js_split (CHR ''/'') (tl resourceId)))))"
  by (auto simp: parseAzureResourceId_def Let_def parseLoop_even fold_assign split: if_splits)

lemma parseAzureResourceId_result_no_proto:
  assumes "parseAzureResourceId resourceId = Inr result"
    and "''__proto__'' \<notin> fst ` set (pairs (js_split (CHR ''/'') (tl resourceId)))"
  shows "result = pairedMap (js_split (CHR ''/'') (tl resourceId))"
proof -
  have "filter (\<lambda>(k, v). k \<noteq> ''__proto__'') (pairs (js_split (CHR ''/'') (tl resourceId))) =
        pairs (js_split (CHR ''/'') (tl resourceId))"
    using assms(2) by (force simp: filter_id_conv)
  with parseAzureResourceId_result [OF assms(1)] show ?thesis
    by (simp add: pairedMap_def)
qed

text \<open>
  C10. The claim is that on every input that is not rejected the function returns the map
  that pairs each key with the part after it. On \<^verbatim>\<open>/__proto__/x\<close> the input is not
  rejected, the map of the claim holds \<^verbatim>\<open>x\<close> under the key \<^verbatim>\<open>__proto__\<close>, and the
  object that the code returns has no property of its own.
\<close>

theorem parseAzureResourceId_loses_proto_key:
  "parseAzureResourceId ''/__proto__/x'' = Inr Map.empty \<and>
   pairedMap (js_split (CHR ''/'') ''__proto__/x'') ''__proto__'' = Some ''x''"
  by (simp add: parseAzureResourceId_def assign_def pairedMap_def)

section \<open>Facts about setPreDeployTaskForDotnet\<close>

subsection \<open>The search only reads\<close>

lemma readsOnly_refl: "readsOnly w w"
  by (simp add: readsOnly_def)

lemma readsOnly_trans: "readsOnly w w1 \<Longrightarrow> readsOnly w1 w2 \<Longrightarrow> readsOnly w w2"
  by (auto simp: readsOnly_def)

lemma readsOnly_emit: "isFsRead e \<Longrightarrow> readsOnly w (emit e w)"
  by (simp add: readsOnly_def emit_def)

lemma readsOnly_setTelemetry: "readsOnly w (setTelemetry k v w)"
  by (simp add: readsOnly_def setTelemetry_def)

lemma checkFolderForCsproj_readsOnly:
  "checkFolderForCsproj env p w = (r, w') \<Longrightarrow> readsOnly w w'"
  by (auto simp: checkFolderForCsproj_def Let_def isFsRead_def split: sum.splits intro!: readsOnly_emit)

lemma checkFolderForCsproj_isCsproj:
  "checkFolderForCsproj env p w = (Inr fs, w') \<Longrightarrow> list_all isCsproj fs"
  by (auto simp: checkFolderForCsproj_def Let_def list_all_iff split: sum.splits)

lemma scanSubfolders_readsOnly:
  "scanSubfolders env p folders acc w = (r, w') \<Longrightarrow> readsOnly w w'"
proof (induction folders arbitrary: acc w)
  case Nil
  then show ?case by (simp add: readsOnly_refl)
next
  case (Cons folder folders)
  let ?fp = "path_join env [p, folder]"
  let ?w1 = "emit (FsExistsSync ?fp) w"
  let ?w2 = "emit (FsStat ?fp) ?w1"
  have r1: "readsOnly w ?w1" by (simp add: readsOnly_emit isFsRead_def)
  have r2: "readsOnly w ?w2"
    by (rule readsOnly_trans [OF r1]) (simp add: readsOnly_emit isFsRead_def)
  show ?case
  proof (cases "existsSync env ?fp")
    case False
    with Cons.prems have "scanSubfolders env p folders acc ?w1 = (r, w')" by (simp add: Let_def)
    from Cons.IH [OF this] r1 show ?thesis by (rule readsOnly_trans [rotated])
  next
    case ex: True
    show ?thesis
    proof (cases "stat_isDirectory env ?fp")
      case (Inl e)
      with ex Cons.prems have "w' = ?w2" by (simp add: Let_def)
      with r2 show ?thesis by simp
    next
      case (Inr isDir)
      show ?thesis
      proof (cases isDir)
        case False
        with ex Inr Cons.prems have "scanSubfolders env p folders acc ?w2 = (r, w')"
          by (simp add: Let_def)
        from Cons.IH [OF this] r2 show ?thesis by (rule readsOnly_trans [rotated])
      next
        case True
        obtain c w3 where c: "checkFolderForCsproj env ?fp ?w2 = (c, w3)"
          by (cases "checkFolderForCsproj env ?fp ?w2")
        have r3: "readsOnly w w3"
          using r2 checkFolderForCsproj_readsOnly [OF c] by (rule readsOnly_trans)
        show ?thesis
        proof (cases c)
          case (Inl e)
          with ex Inr True c Cons.prems have "w' = w3" by (simp add: Let_def)
          with r3 show ?thesis by simp
        next
          case found: (Inr found)
          with ex Inr True c Cons.prems
          have "scanSubfolders env p folders (acc @ found) w3 = (r, w')" by (simp add: Let_def)
          from Cons.IH [OF this] r3 show ?thesis by (rule readsOnly_trans [rotated])
        qed
      qed
    qed
  qed
qed

lemma scanSubfolders_isCsproj:
  "scanSubfolders env p folders acc w = (Inr fs, w') \<Longrightarrow> list_all isCsproj acc \<Longrightarrow> list_all isCsproj fs"
proof (induction folders arbitrary: acc w)
  case Nil
  then show ?case by simp
next
  case (Cons folder folders)
  then show ?case
    by (auto simp: Let_def split: if_splits sum.splits prod.splits dest!: checkFolderForCsproj_isCsproj)
qed

lemma findProjectFiles_readsOnly:
  assumes "findProjectFiles env p w = (r, w')"
  shows "readsOnly w w'"
proof -
  obtain c w1 where c: "checkFolderForCsproj env p w = (c, w1)"
    by (cases "checkFolderForCsproj env p w")
  have r1: "readsOnly w w1" by (rule checkFolderForCsproj_readsOnly [OF c])
  show ?thesis
  proof (cases c)
    case (Inl e)
    with c assms have "w' = w1" by (simp add: findProjectFiles_def)
    with r1 show ?thesis by simp
  next
    case (Inr projectFiles)
    show ?thesis
    proof (cases "length projectFiles = 0")
      case False
      with c Inr assms have "w' = w1" by (simp add: findProjectFiles_def)
      with r1 show ?thesis by simp
    next
      case True
      let ?w2 = "emit (FsReaddir p) w1"
      have r2: "readsOnly w ?w2"
        by (rule readsOnly_trans [OF r1]) (simp add: readsOnly_emit isFsRead_def)
      show ?thesis
      proof (cases "readdir env p")
        case (Inl e)
        with c Inr True assms have "w' = ?w2" by (simp add: findProjectFiles_def Let_def)
        with r2 show ?thesis by simp
      next
        case sub: (Inr subfolders)
        with c Inr True assms
        have "scanSubfolders env p subfolders projectFiles ?w2 = (r, w')"
          by (simp add: findProjectFiles_def Let_def)
        from r2 scanSubfolders_readsOnly [OF this] show ?thesis by (rule readsOnly_trans)
      qed
    qed
  qed
qed

lemma findProjectFiles_isCsproj:
  assumes "findProjectFiles env p w = (Inr fs, w')"
  shows "list_all isCsproj fs"
proof -
  obtain c w1 where c: "checkFolderForCsproj env p w = (c, w1)"
    by (cases "checkFolderForCsproj env p w")
  show ?thesis
  proof (cases c)
    case (Inl e)
    with c assms show ?thesis by (simp add: findProjectFiles_def)
  next
    case (Inr projectFiles)
    with c have ok: "list_all isCsproj projectFiles"
      by (auto dest: checkFolderForCsproj_isCsproj)
    show ?thesis
    proof (cases "length projectFiles = 0")
      case False
      with c Inr assms ok show ?thesis by (simp add: findProjectFiles_def)
    next
      case True
      with c Inr assms ok show ?thesis
        by (auto simp: findProjectFiles_def Let_def split: sum.splits
            dest: scanSubfolders_isCsproj)
    qed
  qed
qed

lemma isCsproj_nonempty: "isCsproj f \<Longrightarrow> f \<noteq> []"
  by (auto simp: isCsproj_def)

lemma tryGetCsprojFile_readsOnly:
  assumes "tryGetCsprojFile env p w = (r, w')"
  shows "readsOnly w w'"
proof -
  obtain c w1 where c: "findProjectFiles env p w = (c, w1)"
    by (cases "findProjectFiles env p w")
  have r1: "readsOnly w w1" by (rule findProjectFiles_readsOnly [OF c])
  from c assms have "w' = w1 \<or> (\<exists>v. w' = setTelemetry ''numOfCsprojFiles'' v w1)"
    by (auto simp: tryGetCsprojFile_def Let_def split: sum.splits)
  with r1 show ?thesis
    by (auto intro: readsOnly_trans readsOnly_setTelemetry)
qed

lemma tryGetCsprojFile_Some:
  assumes "tryGetCsprojFile env p w = (Inr (Some f), w')"
  shows "\<exists>w1. findProjectFiles env p w = (Inr [f], w1)"
proof -
  obtain c w1 where c: "findProjectFiles env p w = (c, w1)"
    by (cases "findProjectFiles env p w")
  with assms obtain fs where fs: "c = Inr fs" "length fs = 1" "f = fs ! 0"
    by (auto simp: tryGetCsprojFile_def Let_def split: sum.splits if_splits)
  then have "fs = [f]" by (cases fs) auto
  with c fs(1) show ?thesis by simp
qed

lemma tryGetCsprojFile_Some_nonempty:
  assumes "tryGetCsprojFile env p w = (Inr (Some f), w')"
  shows "f \<noteq> []"
proof -
  from tryGetCsprojFile_Some [OF assms] obtain w1
    where "findProjectFiles env p w = (Inr [f], w1)" ..
  from findProjectFiles_isCsproj [OF this] show ?thesis
    by (simp add: isCsproj_nonempty)
qed

lemma tryGetCsprojFile_many:
  assumes "findProjectFiles env p w = (Inr fs, w1)" and "2 \<le> length fs"
  shows "\<exists>w'. tryGetCsprojFile env p w = (Inr None, w')"
  using assms by (simp add: tryGetCsprojFile_def Let_def)

lemma tryGetTargetFramework_readsOnly:
  "tryGetTargetFramework env f w = (r, w') \<Longrightarrow> readsOnly w w'"
  by (auto simp: tryGetTargetFramework_def Let_def isFsRead_def split: sum.splits
      intro!: readsOnly_emit)

subsection \<open>What the regular expression captures\<close>

lemma startsWith_append: "startsWith s p \<Longrightarrow> \<exists>rest. s = p @ rest"
  by (induction s p rule: startsWith.induct) auto

lemma startsWith_prefix: "startsWith (p @ rest) p"
  by (induction p) auto

lemma greedyCapture_sound:
  "greedyCapture closing s = Some captured \<Longrightarrow>
   (\<exists>post. s = captured @ closing @ post) \<and> \<not> list_ex lineTerminator captured"
proof (induction s arbitrary: captured)
  case Nil
  then show ?case by (auto split: if_splits dest: startsWith_append)
next
  case (Cons c cs)
  show ?case
  proof (cases "if lineTerminator c then None else greedyCapture closing cs")
    case None
    with Cons.prems have "captured = []" "startsWith (c # cs) closing"
      by (auto split: if_splits)
    then show ?thesis by (auto dest: startsWith_append)
  next
    case (Some longer)
    then have l: "\<not> lineTerminator c" "greedyCapture closing cs = Some longer"
      by (auto split: if_splits)
    from Some Cons.prems have "captured = c # longer" by simp
    with Cons.IH [OF l(2)] l(1) show ?thesis by auto
  qed
qed

lemma greedyCapture_complete:
  "\<not> list_ex lineTerminator v \<Longrightarrow> greedyCapture closing (v @ closing @ post) \<noteq> None"
proof (induction v)
  case Nil
  have here: "startsWith (closing @ post) closing" by (rule startsWith_prefix)
  show ?case
  proof (cases "closing @ post")
    case Nil
    then show ?thesis by simp
  next
    case (Cons a list)
    with here have "startsWith (a # list) closing" by simp
    with Cons show ?thesis by (simp split: option.splits)
  qed
next
  case (Cons c v)
  then show ?case by (auto split: option.splits)
qed

text \<open>
  What \<open>matchTargetFramework\<close> answers stands in the contents between the two tags, on
  one line; and it answers whenever the contents have the two tags with one line, or
  part of one, between them.
\<close>

lemma matchTargetFramework_sound:
  "matchTargetFramework s = Some v \<Longrightarrow>
   (\<exists>pre post. s = pre @ ''<TargetFramework>'' @ v @ ''</TargetFramework>'' @ post) \<and>
   \<not> list_ex lineTerminator v"
proof (induction s)
  case Nil
  then show ?case by simp
next
  case (Cons c cs)
  let ?here = "startsWith (c # cs) ''<TargetFramework>'' \<and>
    greedyCapture ''</TargetFramework>'' (drop (length ''<TargetFramework>'') (c # cs)) = Some v"
  show ?case
  proof (cases ?here)
    case True
    then obtain rest where rest: "c # cs = ''<TargetFramework>'' @ rest"
      by (blast dest: startsWith_append)
    then have "drop (length ''<TargetFramework>'') (c # cs) = rest"
      by (metis append_eq_conv_conj)
    with True greedyCapture_sound [of "''</TargetFramework>''" rest v]
    obtain post where "rest = v @ ''</TargetFramework>'' @ post" "\<not> list_ex lineTerminator v"
      by auto
    with rest have "c # cs = [] @ ''<TargetFramework>'' @ v @ ''</TargetFramework>'' @ post"
      by simp
    with \<open>\<not> list_ex lineTerminator v\<close> show ?thesis by blast
  next
    case False
    with Cons.prems have "matchTargetFramework cs = Some v"
      by (auto split: if_splits option.splits)
    from Cons.IH [OF this] obtain pre post where
      "cs = pre @ ''<TargetFramework>'' @ v @ ''</TargetFramework>'' @ post"
      "\<not> list_ex lineTerminator v" by blast
    then have "c # cs = (c # pre) @ ''<TargetFramework>'' @ v @ ''</TargetFramework>'' @ post"
      by simp
    with \<open>\<not> list_ex lineTerminator v\<close> show ?thesis by blast
  qed
qed

lemma matchTargetFramework_complete:
  assumes "\<not> list_ex lineTerminator v"
  shows "matchTargetFramework (pre @ ''<TargetFramework>'' @ v @ ''</TargetFramework>'' @ post) \<noteq> None"
proof (induction pre)
  case Nil
  have "greedyCapture ''</TargetFramework>'' (v @ ''</TargetFramework>'' @ post) \<noteq> None"
    by (rule greedyCapture_complete [OF assms])
  then show ?case by (auto split: option.splits)
next
  case (Cons c pre)
  then show ?case by (auto split: option.splits)
qed

subsection \<open>The ways through the function\<close>

lemma setPreDeployTaskForDotnet_cases:
  assumes run: "setPreDeployTaskForDotnet env context w = (r, context', w')"
  obtains
    (quiet) "readsOnly w w'" "context' = context"
  | (dismissed) w2 e where "readsOnly w w2" "w' = emit (promptEvent env context) w2"
      "r = Inl e" "context' = context"
      "showWarningMessage env (notConfiguredForDeploy context)
         [DialogResponses_yes env, dontShowAgainButton] = Inl e"
  | (never) w2 where "readsOnly w w2"
      "updateWorkspaceSetting env showPreDeployWarningSetting (SBool False)
         (fsPath (workspace context)) (emit (promptEvent env context) w2) = (r, w')"
      "context' = context"
      "showWarningMessage env (notConfiguredForDeploy context)
         [DialogResponses_yes env, dontShowAgainButton] = Inr dontShowAgainButton"
  | (adopted) w2 f tfw input where "readsOnly w w2"
      "addDotnetDefaults env context f tfw (emit (promptEvent env context) w2) = (r, context', w')"
      "showWarningMessage env (notConfiguredForDeploy context)
         [DialogResponses_yes env, dontShowAgainButton] = Inr input"
      "input \<noteq> dontShowAgainButton"
      "fst (tryGetCsprojFile env (fsPath (workspace context)) w) = Inr (Some f)"
      "fst (tryGetTargetFramework env f w) = Inr (Some tfw)"
proof -
  let ?ws = "fsPath (workspace context)"
  show thesis
  proof (cases "\<not> truthy (getWorkspaceSetting showPreDeployWarningSetting ?ws w)
            \<or> truthy (getWorkspaceSetting preDeployTaskSetting ?ws w)
            \<or> truthy (getWorkspaceSetting deploySubpathSetting ?ws w)
            \<or> \<not> isPathEqual env (deployFsPath context) ?ws")
    case True
    then consider "\<not> truthy (getWorkspaceSetting showPreDeployWarningSetting ?ws w)"
      | "truthy (getWorkspaceSetting preDeployTaskSetting ?ws w)"
      | "truthy (getWorkspaceSetting deploySubpathSetting ?ws w)"
      | "\<not> isPathEqual env (deployFsPath context) ?ws"
      by blast
    then have "setPreDeployTaskForDotnet env context w = (Inr (), context, w)"
      by cases (simp_all add: setPreDeployTaskForDotnet_def Let_def)
    with run have "w' = w" "context' = context" by simp_all
    then show thesis by (intro quiet) (simp_all add: readsOnly_refl)
  next
    case False
    then have go: "truthy (getWorkspaceSetting showPreDeployWarningSetting ?ws w)"
      "\<not> truthy (getWorkspaceSetting preDeployTaskSetting ?ws w)"
      "\<not> truthy (getWorkspaceSetting deploySubpathSetting ?ws w)"
      "isPathEqual env (deployFsPath context) ?ws"
      by simp_all
    obtain c w1 where c: "tryGetCsprojFile env ?ws w = (c, w1)"
      by (cases "tryGetCsprojFile env ?ws w")
    have r1: "readsOnly w w1" by (rule tryGetCsprojFile_readsOnly [OF c])
    note run1 = run [unfolded setPreDeployTaskForDotnet_def Let_def]
    show thesis
    proof (cases "\<exists>f. c = Inr (Some f) \<and> f \<noteq> []")
      case False
      with run1 go c have "w' = w1" "context' = context"
        by (auto split: sum.splits option.splits if_splits)
      with r1 show thesis by (intro quiet) simp_all
    next
      case True
      then obtain f where f: "c = Inr (Some f)" "f \<noteq> []" by blast
      obtain t w2 where t: "tryGetTargetFramework env f w1 = (t, w2)"
        by (cases "tryGetTargetFramework env f w1")
      have r2: "readsOnly w w2"
        using r1 tryGetTargetFramework_readsOnly [OF t] by (rule readsOnly_trans)
      show thesis
      proof (cases "\<exists>tfw. t = Inr (Some tfw) \<and> tfw \<noteq> []")
        case False
        with run1 go c f t have "w' = w2 \<or> w' = setTelemetry ''tfw'' ''N/A'' w2" "context' = context"
          by (auto split: sum.splits option.splits if_splits)
        with r2 show thesis
          by (intro quiet) (auto intro: readsOnly_trans readsOnly_setTelemetry)
      next
        case True
        then obtain tfw where tfw: "t = Inr (Some tfw)" "tfw \<noteq> []" by blast
        let ?w3 = "setTelemetry ''tfw'' tfw w2"
        let ?w4 = "emit (promptEvent env context) ?w3"
        have r3: "readsOnly w ?w3"
          using r2 readsOnly_setTelemetry by (rule readsOnly_trans)
        show thesis
        proof (cases "showWarningMessage env (notConfiguredForDeploy context)
                        [DialogResponses_yes env, dontShowAgainButton]")
          case (Inl e)
          with run1 go c f t tfw have "w' = ?w4" "r = Inl e" "context' = context"
            by (auto simp: Let_def promptEvent_def)
          with r3 Inl show thesis by (intro dismissed) simp_all
        next
          case (Inr input)
          show thesis
          proof (cases "input = dontShowAgainButton")
            case True
            with Inr run1 go c f t tfw have
              "updateWorkspaceSetting env showPreDeployWarningSetting (SBool False) ?ws ?w4 = (r, w')"
              "context' = context"
              by (auto simp: Let_def promptEvent_def split: prod.splits)
            with r3 Inr True show thesis by (intro never) simp_all
          next
            case False
            with Inr run1 go c f t tfw have
              "addDotnetDefaults env context f tfw ?w4 = (r, context', w')"
              by (auto simp: Let_def promptEvent_def)
            moreover have "fst (tryGetTargetFramework env f w) = Inr (Some tfw)"
              using t tfw by (auto simp: tryGetTargetFramework_def Let_def split: sum.splits)
            ultimately show thesis using r3 Inr False c f by (intro adopted) simp_all
          qed
        qed
      qed
    qed
  qed
qed

lemma find_label_None:
  "(List.find (\<lambda>t2. label t1 = label t2) ts = None) = (label t1 \<notin> set (map label ts))"
  by (auto simp: find_None_iff)

text \<open>The three ways through the writes that follow an accepted prompt.\<close>

lemma addDotnetDefaults_cases:
  assumes run: "addDotnetDefaults env context f tfw w4 = (r, context', w')"
  obtains
    (first_refused) e where
      "writeSetting env preDeployTaskSetting (SString ''publish'') (fsPath (workspace context)) = Inl e"
      "r = Inl e" "context' = context"
      "w' = emit (UpdateWorkspaceSettingFailed preDeployTaskSetting (SString ''publish'')
                   (fsPath (workspace context))) w4"
  | (second_refused) e where
      "writeSetting env preDeployTaskSetting (SString ''publish'') (fsPath (workspace context)) = Inr ()"
      "writeSetting env deploySubpathSetting
         (SString (path_posix_join env
            [path_dirname env (path_relative env (fsPath (workspace context)) f),
             ''bin'', ''Release'', tfw, ''publish'']))
         (fsPath (workspace context)) = Inl e"
      "r = Inl e" "context' = context"
      "trace w' = trace w4 @
         [UpdateWorkspaceSetting preDeployTaskSetting (SString ''publish'') (fsPath (workspace context)),
          UpdateWorkspaceSettingFailed deploySubpathSetting
            (SString (path_posix_join env
               [path_dirname env (path_relative env (fsPath (workspace context)) f),
                ''bin'', ''Release'', tfw, ''publish'']))
            (fsPath (workspace context))]"
      "settings w' = (settings w4)
         (fsPath (workspace context) :=
            (settings w4 (fsPath (workspace context)))(preDeployTaskSetting \<mapsto> SString ''publish''))"
      "tasks w' = tasks w4"
  | (stored)
      "writeSetting env preDeployTaskSetting (SString ''publish'') (fsPath (workspace context)) = Inr ()"
      "writeSetting env deploySubpathSetting
         (SString (path_posix_join env
            [path_dirname env (path_relative env (fsPath (workspace context)) f),
             ''bin'', ''Release'', tfw, ''publish'']))
         (fsPath (workspace context)) = Inr ()"
      "r = Inr ()"
      "context' = context\<lparr>deployFsPath :=
         path_join env [fsPath (workspace context),
           path_posix_join env
             [path_dirname env (path_relative env (fsPath (workspace context)) f),
              ''bin'', ''Release'', tfw, ''publish'']]\<rparr>"
      "trace w' = trace w4 @
         [UpdateWorkspaceSetting preDeployTaskSetting (SString ''publish'') (fsPath (workspace context)),
          UpdateWorkspaceSetting deploySubpathSetting
            (SString (path_posix_join env
               [path_dirname env (path_relative env (fsPath (workspace context)) f),
                ''bin'', ''Release'', tfw, ''publish'']))
            (fsPath (workspace context)),
          UpdateTasks (fsPath (workspace context))
            (tasks w4 (fsPath (workspace context)) @
             filter (\<lambda>t. label t \<notin> set (map label (tasks w4 (fsPath (workspace context)))))
               (generateDotnetTasks env
                  (path_dirname env (path_relative env (fsPath (workspace context)) f))))]"
      "settings w' = (settings w4)
         (fsPath (workspace context) :=
            (settings w4 (fsPath (workspace context)))
              (preDeployTaskSetting \<mapsto> SString ''publish'',
               deploySubpathSetting \<mapsto> SString (path_posix_join env
                 [path_dirname env (path_relative env (fsPath (workspace context)) f),
                  ''bin'', ''Release'', tfw, ''publish''])))"
      "tasks w' = (tasks w4)
         (fsPath (workspace context) :=
            tasks w4 (fsPath (workspace context)) @
            filter (\<lambda>t. label t \<notin> set (map label (tasks w4 (fsPath (workspace context)))))
              (generateDotnetTasks env
                 (path_dirname env (path_relative env (fsPath (workspace context)) f))))"
proof -
  let ?ws = "fsPath (workspace context)"
  let ?sub = "path_posix_join env
            [path_dirname env (path_relative env ?ws f), ''bin'', ''Release'', tfw, ''publish'']"
  show thesis
  proof (cases "writeSetting env preDeployTaskSetting (SString ''publish'') ?ws")
    case (Inl e)
    with run show thesis
      by (intro first_refused [of e])
        (auto simp: addDotnetDefaults_def Let_def updateWorkspaceSetting_def)
  next
    case first: (Inr u)
    show thesis
    proof (cases "writeSetting env deploySubpathSetting (SString ?sub) ?ws")
      case (Inl e)
      with run first show thesis
        by (intro second_refused [of e])
          (auto simp: addDotnetDefaults_def Let_def updateWorkspaceSetting_def emit_def)
    next
      case (Inr u')
      with run first show thesis
        by (intro stored)
          (auto simp: addDotnetDefaults_def Let_def updateWorkspaceSetting_def emit_def
            updateTasks_def getTasks_def find_label_None)
    qed
  qed
qed

lemma events_since_readsOnly:
  "readsOnly w w' \<Longrightarrow> list_all isFsRead (events_since w w')"
  by (auto simp: readsOnly_def events_since_def)

lemma events_since_emit:
  "readsOnly w w2 \<Longrightarrow> events_since w (emit e w2) = events_since w w2 @ [e]"
  by (auto simp: readsOnly_def events_since_def emit_def)

lemma readsOnly_length: "readsOnly w w2 \<Longrightarrow> length (trace w) \<le> length (trace w2)"
  by (auto simp: readsOnly_def)

lemma events_since_after_reads:
  "readsOnly w w2 \<Longrightarrow> trace w' = trace w2 @ xs \<Longrightarrow> events_since w w' = events_since w w2 @ xs"
  by (auto simp: readsOnly_def events_since_def)

lemma isFsRead_not_write:
  "list_all isFsRead evs \<Longrightarrow> \<not> list_ex (writesSetting k) evs"
  "list_all isFsRead evs \<Longrightarrow> \<not> list_ex isSettingWrite evs"
  "list_all isFsRead evs \<Longrightarrow> \<not> list_ex isTaskWrite evs"
  "list_all isFsRead evs \<Longrightarrow> \<not> list_ex isPrompt evs"
  "list_all isFsRead evs \<Longrightarrow> \<not> list_ex (failsSetting k) evs"
  by (auto simp: list_all_iff list_ex_iff isFsRead_def writesSetting_def isSettingWrite_def
      isTaskWrite_def isPrompt_def failsSetting_def split: event.splits)

lemma setting_names:
  "preDeployTaskSetting \<noteq> deploySubpathSetting"
  "showPreDeployWarningSetting \<noteq> preDeployTaskSetting"
  "showPreDeployWarningSetting \<noteq> deploySubpathSetting"
  by (simp_all add: preDeployTaskSetting_def deploySubpathSetting_def showPreDeployWarningSetting_def)

text \<open>The run in which detection finds a project and the user accepts.\<close>

lemma setPreDeployTaskForDotnet_accepted:
  assumes "truthy (getWorkspaceSetting showPreDeployWarningSetting (fsPath (workspace context)) w)"
    and "\<not> truthy (getWorkspaceSetting preDeployTaskSetting (fsPath (workspace context)) w)"
    and "\<not> truthy (getWorkspaceSetting deploySubpathSetting (fsPath (workspace context)) w)"
    and "isPathEqual env (deployFsPath context) (fsPath (workspace context))"
    and one: "fst (tryGetCsprojFile env (fsPath (workspace context)) w) = Inr (Some csprojFile)"
    and "readFile env csprojFile = Inr projContents"
    and "matchTargetFramework projContents = Some targetFramework"
    and "targetFramework \<noteq> []"
    and "showWarningMessage env (notConfiguredForDeploy context)
           [DialogResponses_yes env, dontShowAgainButton] = Inr input"
    and "input \<noteq> dontShowAgainButton"
  shows "setPreDeployTaskForDotnet env context w =
           addDotnetDefaults env context csprojFile targetFramework
             (emit (promptEvent env context)
                (setTelemetry ''tfw'' targetFramework
                   (emit (FsReadFile csprojFile)
                      (snd (tryGetCsprojFile env (fsPath (workspace context)) w)))))"
proof -
  obtain w1 where c: "tryGetCsprojFile env (fsPath (workspace context)) w = (Inr (Some csprojFile), w1)"
    using one by (cases "tryGetCsprojFile env (fsPath (workspace context)) w") simp
  have ne: "csprojFile \<noteq> []" by (rule tryGetCsprojFile_Some_nonempty [OF c])
  show ?thesis
    using assms c ne
    by (simp add: setPreDeployTaskForDotnet_def Let_def tryGetTargetFramework_def promptEvent_def)
qed

lemma accepted_world_reads_only:
  assumes "tryGetCsprojFile env p w = (c, w1)"
  shows "readsOnly w (setTelemetry ''tfw'' tfw (emit (FsReadFile f) w1))"
proof -
  have "readsOnly w w1" by (rule tryGetCsprojFile_readsOnly [OF assms])
  moreover have "readsOnly w1 (emit (FsReadFile f) w1)"
    by (simp add: readsOnly_emit isFsRead_def)
  moreover have "readsOnly (emit (FsReadFile f) w1) (setTelemetry ''tfw'' tfw (emit (FsReadFile f) w1))"
    by (rule readsOnly_setTelemetry)
  ultimately show ?thesis by (blast intro: readsOnly_trans)
qed

subsection \<open>The sample host at work\<close>

lemma sampleEnv_simps:
  "readdir sampleEnv = (\<lambda>p. if p = ''/ws'' then Inr [''App.csproj'', ''README.md''] else Inl (Error ''ENOENT''))"
  "existsSync sampleEnv = (\<lambda>p. p = ''/ws/App.csproj'' \<or> p = ''/ws/README.md'')"
  "stat_isDirectory sampleEnv = (\<lambda>p. Inr False)"
  "readFile sampleEnv = (\<lambda>p. if p = ''/ws/App.csproj''
                        then Inr ''<Project><TargetFramework>net6.0</TargetFramework></Project>''
                        else Inl (Error ''ENOENT''))"
  "path_join sampleEnv = joinPath"
  "path_relative sampleEnv = relativePath"
  "path_dirname sampleEnv = dirnamePath"
  "path_posix_join sampleEnv = joinPath"
  "isPathEqual sampleEnv = (\<lambda>a b. a = b)"
  "writeSetting sampleEnv = (\<lambda>key val p. Inr ())"
  "showWarningMessage sampleEnv = (\<lambda>message items. Inr (hd items))"
  "DialogResponses_yes sampleEnv = MessageItem ''Yes''"
  "DialogResponses_cancel sampleEnv = MessageItem ''Cancel''"
  "AppServiceDialogResponses_deploy sampleEnv = MessageItem ''Deploy''"
  "getSiteConfig sampleEnv = (\<lambda>node. Inr sampleSiteConfig)"
  "isJavaRuntime sampleEnv = (\<lambda>fx. False)"
  "getArtifactTypeByJavaRuntime sampleEnv = (\<lambda>fx. ''jar'')"
  "getDeployFsPath sampleEnv = (\<lambda>t ext. case t of UriTarget p \<Rightarrow> Inr p | _ \<Rightarrow> Inr ''/ws'')"
  "getContainingWorkspace sampleEnv = (\<lambda>p. if p = ''/ws'' then Some sampleFolder else None)"
  "getDefaultWebAppToDeploy sampleEnv = (\<lambda>context. Inr (None, False))"
  "showTreeItemPicker sampleEnv = (\<lambda>contextValue. Inr sampleNode)"
  "createdNodes sampleEnv = []"
  "WebAppTreeItem_contextValue sampleEnv = ''appService''"
  "getRandomHexString sampleEnv = ''c0ffee''"
  "findFilesByFileExtension sampleEnv = (\<lambda>p ext. Inr [])"
  "showQuickPick sampleEnv = (\<lambda>files. Inr (hd files))"
  "configureJavaSEAppSettings sampleEnv = (\<lambda>node. Inr ())"
  "pathExists sampleEnv = (\<lambda>p. False)"
  "deploymentFileName sampleEnv = ''.deployment''"
  "LinuxRuntimes_node sampleEnv = ''node''"
  "LinuxRuntimes_python sampleEnv = ''python''"
  "promptScmDoBuildDeploy sampleEnv = (\<lambda>node p runtime. Inr ())"
  "openTextDocument sampleEnv = (\<lambda>p. Inr ())"
  "executeCommand sampleEnv = (\<lambda>c. Inr ())"
  "runPreDeployTask sampleEnv = (\<lambda>context p scm. Inr ())"
  "appservice_deploy sampleEnv = (\<lambda>node p. Inr ())"
  by (simp_all add: sampleEnv_def)

lemma refusingEnv_simps:
  "readdir refusingEnv = readdir sampleEnv"
  "readFile refusingEnv = readFile sampleEnv"
  "path_join refusingEnv = joinPath"
  "path_relative refusingEnv = relativePath"
  "path_dirname refusingEnv = dirnamePath"
  "path_posix_join refusingEnv = joinPath"
  "isPathEqual refusingEnv = (\<lambda>a b. a = b)"
  "showWarningMessage refusingEnv = (\<lambda>message items. Inr (hd items))"
  "DialogResponses_yes refusingEnv = MessageItem ''Yes''"
  "writeSetting refusingEnv =
     (\<lambda>key val p. if key = deploySubpathSetting then Inl (Error ''Unable to write settings'')
                   else Inr ())"
  by (simp_all add: refusingEnv_def sampleEnv_simps)

lemma sample_files:
  "findProjectFiles sampleEnv ''/ws'' w = (Inr [''/ws/App.csproj''], emit (FsReaddir ''/ws'') w)"
  "findProjectFiles refusingEnv ''/ws'' w = (Inr [''/ws/App.csproj''], emit (FsReaddir ''/ws'') w)"
  by (simp_all add: findProjectFiles_def checkFolderForCsproj_def refusingEnv_simps sampleEnv_simps
      isCsproj_def toLowerASCII_def Let_def joinPath_def)

lemma sample_csproj:
  "tryGetCsprojFile sampleEnv ''/ws'' w =
     (Inr (Some ''/ws/App.csproj''),
      setTelemetry ''numOfCsprojFiles'' ''1'' (emit (FsReaddir ''/ws'') w))"
  "tryGetCsprojFile refusingEnv ''/ws'' w =
     (Inr (Some ''/ws/App.csproj''),
      setTelemetry ''numOfCsprojFiles'' ''1'' (emit (FsReaddir ''/ws'') w))"
  by (simp_all add: tryGetCsprojFile_def sample_files Let_def toString.simps)

lemma sample_framework:
  "matchTargetFramework ''<Project><TargetFramework>net6.0</TargetFramework></Project>'' = Some ''net6.0''"
  by (simp add: lineTerminator_def)

lemma sample_paths:
  "joinPath [dirnamePath (relativePath ''/ws'' ''/ws/App.csproj''), ''bin'', ''Release'', ''net6.0'', ''publish'']
     = ''bin/Release/net6.0/publish''"
  "joinPath [''/ws'', ''bin/Release/net6.0/publish''] = ''/ws/bin/Release/net6.0/publish''"
  "dirnamePath (relativePath ''/ws'' ''/ws/App.csproj'') = ''.''"
  "joinPath [''${workspaceFolder}'', ''.''] = ''${workspaceFolder}''"
  "joinPath [''.'', ''bin'', ''Release'', ''net6.0'', ''publish''] = ''bin/Release/net6.0/publish''"
  by (simp_all add: dirnamePath_def relativePath_def joinPath_def)

lemma sample_settings:
  "truthy (getWorkspaceSetting showPreDeployWarningSetting (fsPath (workspace sampleContext)) sampleWorld)"
  "\<not> truthy (getWorkspaceSetting preDeployTaskSetting (fsPath (workspace sampleContext)) sampleWorld)"
  "\<not> truthy (getWorkspaceSetting deploySubpathSetting (fsPath (workspace sampleContext)) sampleWorld)"
  by (simp_all add: truthy_def getWorkspaceSetting_def sampleWorld_def
      showPreDeployWarningSetting_def preDeployTaskSetting_def deploySubpathSetting_def)

lemma sample_context:
  "fsPath (workspace sampleContext) = ''/ws''" "deployFsPath sampleContext = ''/ws''"
  "workspace sampleContext = sampleFolder" "fsPath sampleFolder = ''/ws''"
  by (simp_all add: sampleContext_def sampleFolder_def)

lemma sample_root:
  "isPathEqual sampleEnv (deployFsPath sampleContext) (fsPath (workspace sampleContext))"
  "isPathEqual refusingEnv (deployFsPath sampleContext) (fsPath (workspace sampleContext))"
  by (simp_all add: sampleEnv_simps refusingEnv_simps sample_context)

lemma sample_one:
  "fst (tryGetCsprojFile sampleEnv (fsPath (workspace sampleContext)) w) = Inr (Some ''/ws/App.csproj'')"
  "fst (tryGetCsprojFile refusingEnv (fsPath (workspace sampleContext)) w) = Inr (Some ''/ws/App.csproj'')"
  by (simp_all add: sample_context sample_csproj)

lemma sample_contents:
  "readFile sampleEnv ''/ws/App.csproj'' =
     Inr ''<Project><TargetFramework>net6.0</TargetFramework></Project>''"
  "readFile refusingEnv ''/ws/App.csproj'' =
     Inr ''<Project><TargetFramework>net6.0</TargetFramework></Project>''"
  by (simp_all add: sampleEnv_simps refusingEnv_simps)

lemma sample_yes:
  "showWarningMessage sampleEnv (notConfiguredForDeploy sampleContext)
     [DialogResponses_yes sampleEnv, dontShowAgainButton] = Inr (DialogResponses_yes sampleEnv)"
  "DialogResponses_yes sampleEnv \<noteq> dontShowAgainButton"
  by (simp_all add: sampleEnv_simps dontShowAgainButton_def)

lemma refusing_yes:
  "showWarningMessage refusingEnv (notConfiguredForDeploy sampleContext)
     [DialogResponses_yes refusingEnv, dontShowAgainButton] = Inr (DialogResponses_yes refusingEnv)"
  "DialogResponses_yes refusingEnv \<noteq> dontShowAgainButton"
  by (simp_all add: refusingEnv_simps dontShowAgainButton_def)

lemma sample_tasks:
  "generateDotnetTasks sampleEnv ''.'' =
     [\<lparr>label = Some ''build'', command = ''dotnet'', task_type = ''process'',
        args = [''build'', ''${workspaceFolder}'', ''/property:GenerateFullPaths=true'',
                ''/consoleloggerparameters:NoSummary''],
        problemMatcher = ''$msCompile''\<rparr>,
      \<lparr>label = Some ''publish'', command = ''dotnet'', task_type = ''process'',
        args = [''publish'', ''${workspaceFolder}'', ''/property:GenerateFullPaths=true'',
                ''/consoleloggerparameters:NoSummary''],
        problemMatcher = ''$msCompile''\<rparr>,
      \<lparr>label = Some ''watch'', command = ''dotnet'', task_type = ''process'',
        args = [''watch'', ''run'', ''${workspaceFolder}'', ''/property:GenerateFullPaths=true'',
                ''/consoleloggerparameters:NoSummary''],
        problemMatcher = ''$msCompile''\<rparr>]"
  by (simp add: generateDotnetTasks_def Let_def sampleEnv_simps sample_paths)

text \<open>The accepted run on the sample host, and on the host that refuses the second write.\<close>

lemma sample_run:
  "setPreDeployTaskForDotnet sampleEnv sampleContext sampleWorld =
     (Inr (), sampleContext\<lparr>deployFsPath := ''/ws/bin/Release/net6.0/publish''\<rparr>,
      sampleWorld\<lparr>
        settings := (settings sampleWorld)
          (''/ws'' := [showPreDeployWarningSetting \<mapsto> SBool True,
                       preDeployTaskSetting \<mapsto> SString ''publish'',
                       deploySubpathSetting \<mapsto> SString ''bin/Release/net6.0/publish'']),
        tasks := (tasks sampleWorld)(''/ws'' := sampleTask # tl (generateDotnetTasks sampleEnv ''.'')),
        telemetry := [''numOfCsprojFiles'' \<mapsto> ''1'', ''tfw'' \<mapsto> ''net6.0''],
        trace :=
         [FsReaddir ''/ws'', FsReadFile ''/ws/App.csproj'',
          ShowWarningMessage (notConfiguredForDeploy sampleContext) [MessageItem ''Yes'', dontShowAgainButton],
          UpdateWorkspaceSetting preDeployTaskSetting (SString ''publish'') ''/ws'',
          UpdateWorkspaceSetting deploySubpathSetting (SString ''bin/Release/net6.0/publish'') ''/ws'',
          UpdateTasks ''/ws'' (sampleTask # tl (generateDotnetTasks sampleEnv ''.''))]\<rparr>)"
proof -
  have nonempty: "''net6.0'' \<noteq> []" by simp
  have keep: "filter (\<lambda>t1. label t1 \<noteq> label sampleTask)
                (generateDotnetTasks sampleEnv ''.'') = tl (generateDotnetTasks sampleEnv ''.'')"
    by (simp add: sample_tasks sampleTask_def)
  have existing: "tasks sampleWorld ''/ws'' = [sampleTask]" by (simp add: sampleWorld_def)
  have "addDotnetDefaults sampleEnv sampleContext ''/ws/App.csproj'' ''net6.0''
          (emit (promptEvent sampleEnv sampleContext)
             (setTelemetry ''tfw'' ''net6.0''
                (emit (FsReadFile ''/ws/App.csproj'')
                   (setTelemetry ''numOfCsprojFiles'' ''1'' (emit (FsReaddir ''/ws'') sampleWorld))))) =
        (Inr (), sampleContext\<lparr>deployFsPath := ''/ws/bin/Release/net6.0/publish''\<rparr>,
      sampleWorld\<lparr>
        settings := (settings sampleWorld)
          (''/ws'' := [showPreDeployWarningSetting \<mapsto> SBool True,
                       preDeployTaskSetting \<mapsto> SString ''publish'',
                       deploySubpathSetting \<mapsto> SString ''bin/Release/net6.0/publish'']),
        tasks := (tasks sampleWorld)(''/ws'' := sampleTask # tl (generateDotnetTasks sampleEnv ''.'')),
        telemetry := [''numOfCsprojFiles'' \<mapsto> ''1'', ''tfw'' \<mapsto> ''net6.0''],
        trace :=
         [FsReaddir ''/ws'', FsReadFile ''/ws/App.csproj'',
          ShowWarningMessage (notConfiguredForDeploy sampleContext) [MessageItem ''Yes'', dontShowAgainButton],
          UpdateWorkspaceSetting preDeployTaskSetting (SString ''publish'') ''/ws'',
          UpdateWorkspaceSetting deploySubpathSetting (SString ''bin/Release/net6.0/publish'') ''/ws'',
          UpdateTasks ''/ws'' (sampleTask # tl (generateDotnetTasks sampleEnv ''.''))]\<rparr>)"
    unfolding addDotnetDefaults_def Let_def sample_context sampleEnv_simps sample_paths
    by (simp add: updateWorkspaceSetting_def updateTasks_def getTasks_def emit_def setTelemetry_def
        promptEvent_def sampleEnv_simps sample_context existing keep)
      (simp add: sampleWorld_def sampleFolder_def sampleContext_def)
  with setPreDeployTaskForDotnet_accepted
    [OF sample_settings sample_root(1) sample_one(1) sample_contents(1) sample_framework nonempty sample_yes]
  show ?thesis by (simp add: sample_context sample_csproj)
qed

lemma refusing_run:
  "setPreDeployTaskForDotnet refusingEnv sampleContext sampleWorld =
     (Inl (Error ''Unable to write settings''), sampleContext,
      sampleWorld\<lparr>
        settings := (settings sampleWorld)
          (''/ws'' := [showPreDeployWarningSetting \<mapsto> SBool True,
                       preDeployTaskSetting \<mapsto> SString ''publish'']),
        telemetry := [''numOfCsprojFiles'' \<mapsto> ''1'', ''tfw'' \<mapsto> ''net6.0''],
        trace :=
         [FsReaddir ''/ws'', FsReadFile ''/ws/App.csproj'',
          ShowWarningMessage (notConfiguredForDeploy sampleContext) [MessageItem ''Yes'', dontShowAgainButton],
          UpdateWorkspaceSetting preDeployTaskSetting (SString ''publish'') ''/ws'',
          UpdateWorkspaceSettingFailed deploySubpathSetting (SString ''bin/Release/net6.0/publish'')
            ''/ws'']\<rparr>)"
proof -
  have nonempty: "''net6.0'' \<noteq> []" by simp
  have "addDotnetDefaults refusingEnv sampleContext ''/ws/App.csproj'' ''net6.0''
          (emit (promptEvent refusingEnv sampleContext)
             (setTelemetry ''tfw'' ''net6.0''
                (emit (FsReadFile ''/ws/App.csproj'')
                   (setTelemetry ''numOfCsprojFiles'' ''1'' (emit (FsReaddir ''/ws'') sampleWorld))))) =
     (Inl (Error ''Unable to write settings''), sampleContext,
      sampleWorld\<lparr>
        settings := (settings sampleWorld)
          (''/ws'' := [showPreDeployWarningSetting \<mapsto> SBool True,
                       preDeployTaskSetting \<mapsto> SString ''publish'']),
        telemetry := [''numOfCsprojFiles'' \<mapsto> ''1'', ''tfw'' \<mapsto> ''net6.0''],
        trace :=
         [FsReaddir ''/ws'', FsReadFile ''/ws/App.csproj'',
          ShowWarningMessage (notConfiguredForDeploy sampleContext) [MessageItem ''Yes'', dontShowAgainButton],
          UpdateWorkspaceSetting preDeployTaskSetting (SString ''publish'') ''/ws'',
          UpdateWorkspaceSettingFailed deploySubpathSetting (SString ''bin/Release/net6.0/publish'')
            ''/ws'']\<rparr>)"
    unfolding addDotnetDefaults_def Let_def sample_context refusingEnv_simps sample_paths
    by (simp add: updateWorkspaceSetting_def emit_def setTelemetry_def setting_names
        promptEvent_def refusingEnv_simps sample_context)
      (simp add: sampleWorld_def sampleFolder_def sampleContext_def)
  with setPreDeployTaskForDotnet_accepted
    [OF sample_settings sample_root(2) sample_one(2) sample_contents(2) sample_framework nonempty refusing_yes]
  show ?thesis by (simp add: sample_context sample_csproj)
qed

lemma sample_events:
  "events_since sampleWorld (snd (snd (setPreDeployTaskForDotnet sampleEnv sampleContext sampleWorld))) =
     [FsReaddir ''/ws'', FsReadFile ''/ws/App.csproj'',
      ShowWarningMessage (notConfiguredForDeploy sampleContext) [MessageItem ''Yes'', dontShowAgainButton],
      UpdateWorkspaceSetting preDeployTaskSetting (SString ''publish'') ''/ws'',
      UpdateWorkspaceSetting deploySubpathSetting (SString ''bin/Release/net6.0/publish'') ''/ws'',
      UpdateTasks ''/ws'' (sampleTask # tl (generateDotnetTasks sampleEnv ''.''))]"
  unfolding sample_run by (simp add: events_since_def sampleWorld_def)

lemma refusing_events:
  "events_since sampleWorld (snd (snd (setPreDeployTaskForDotnet refusingEnv sampleContext sampleWorld))) =
     [FsReaddir ''/ws'', FsReadFile ''/ws/App.csproj'',
      ShowWarningMessage (notConfiguredForDeploy sampleContext) [MessageItem ''Yes'', dontShowAgainButton],
      UpdateWorkspaceSetting preDeployTaskSetting (SString ''publish'') ''/ws'',
      UpdateWorkspaceSettingFailed deploySubpathSetting (SString ''bin/Release/net6.0/publish'') ''/ws'']"
  unfolding refusing_run by (simp add: events_since_def sampleWorld_def)

lemma twoProjects_files:
  "fst (findProjectFiles twoProjectsEnv (fsPath (workspace sampleContext)) sampleWorld) =
     Inr [''/ws/A.csproj'', ''/ws/b.CSPROJ'']"
  by (simp add: findProjectFiles_def checkFolderForCsproj_def twoProjectsEnv_def sampleEnv_simps
      sample_context isCsproj_def toLowerASCII_def Let_def joinPath_def)

subsection \<open>The claims\<close>

text \<open>
  C3. In every run of \<open>setPreDeployTaskForDotnet\<close>, whatever the settings, the files, the
  answer to the prompt and the outcome: the setting \<^verbatim>\<open>deploySubpath\<close> is written
  exactly when the setting \<^verbatim>\<open>preDeployTask\<close> is written and the write of
  \<^verbatim>\<open>deploySubpath\<close>, which follows it, is not refused. So \<^verbatim>\<open>deploySubpath\<close> is never
  written alone, the two are written together or not at all in every run in which no
  write is refused, and \<^verbatim>\<open>preDeployTask\<close> is written alone only when the write of
  \<^verbatim>\<open>deploySubpath\<close> fails.
\<close>

theorem deploySubpath_written_iff_preDeployTask_and_not_refused:
  "list_ex (writesSetting deploySubpathSetting)
     (events_since w (snd (snd (setPreDeployTaskForDotnet env context w)))) =
   (list_ex (writesSetting preDeployTaskSetting)
      (events_since w (snd (snd (setPreDeployTaskForDotnet env context w)))) \<and>
    \<not> list_ex (failsSetting deploySubpathSetting)
        (events_since w (snd (snd (setPreDeployTaskForDotnet env context w)))))"
proof -
  obtain r context' w' where run: "setPreDeployTaskForDotnet env context w = (r, context', w')"
    by (cases "setPreDeployTaskForDotnet env context w")
  have "list_ex (writesSetting deploySubpathSetting) (events_since w w') =
        (list_ex (writesSetting preDeployTaskSetting) (events_since w w') \<and>
         \<not> list_ex (failsSetting deploySubpathSetting) (events_since w w'))"
    using run
  proof (cases rule: setPreDeployTaskForDotnet_cases)
    case quiet
    then show ?thesis
      using isFsRead_not_write(1) [OF events_since_readsOnly] by blast
  next
    case (dismissed w2 e)
    then show ?thesis
      using isFsRead_not_write(1) [OF events_since_readsOnly [of w w2]]
      by (simp add: events_since_emit promptEvent_def writesSetting_def)
  next
    case (never w2)
    from never(2) have "\<exists>x. trace w' = trace w2 @ [promptEvent env context, x] \<and>
        \<not> writesSetting deploySubpathSetting x \<and> \<not> writesSetting preDeployTaskSetting x"
      by (auto simp: updateWorkspaceSetting_def emit_def writesSetting_def setting_names
          split: sum.splits)
    then obtain x where x: "trace w' = trace w2 @ [promptEvent env context, x]"
      "\<not> writesSetting deploySubpathSetting x" "\<not> writesSetting preDeployTaskSetting x"
      by blast
    from events_since_after_reads [OF never(1) x(1)] x(2,3)
      isFsRead_not_write(1) [OF events_since_readsOnly [OF never(1)]]
    show ?thesis by (simp add: promptEvent_def writesSetting_def)
  next
    case (adopted w2 f tfw input)
    note reads = isFsRead_not_write(1,5) [OF events_since_readsOnly [OF adopted(1)]]
    from adopted(2) show ?thesis
    proof (cases rule: addDotnetDefaults_cases)
      case (first_refused e)
      then have "trace w' = trace w2 @ [promptEvent env context,
          UpdateWorkspaceSettingFailed preDeployTaskSetting (SString ''publish'') (fsPath (workspace context))]"
        by (simp add: emit_def)
      from events_since_after_reads [OF adopted(1) this] reads show ?thesis
        by (simp add: promptEvent_def writesSetting_def failsSetting_def setting_names)
    next
      case (second_refused e)
      then have "trace w' = trace w2 @ [promptEvent env context,
          UpdateWorkspaceSetting preDeployTaskSetting (SString ''publish'') (fsPath (workspace context)),
          UpdateWorkspaceSettingFailed deploySubpathSetting
            (SString (path_posix_join env
               [path_dirname env (path_relative env (fsPath (workspace context)) f),
                ''bin'', ''Release'', tfw, ''publish'']))
            (fsPath (workspace context))]"
        by (simp add: emit_def)
      from events_since_after_reads [OF adopted(1) this] reads show ?thesis
        by (simp add: promptEvent_def writesSetting_def failsSetting_def setting_names)
    next
      case stored
      from stored(5) obtain ts where "trace w' = trace w2 @ [promptEvent env context,
          UpdateWorkspaceSetting preDeployTaskSetting (SString ''publish'') (fsPath (workspace context)),
          UpdateWorkspaceSetting deploySubpathSetting
            (SString (path_posix_join env
               [path_dirname env (path_relative env (fsPath (workspace context)) f),
                ''bin'', ''Release'', tfw, ''publish'']))
            (fsPath (workspace context)),
          UpdateTasks (fsPath (workspace context)) ts]"
        by (simp add: emit_def)
      from events_since_after_reads [OF adopted(1) this] reads show ?thesis
        by (simp add: promptEvent_def writesSetting_def failsSetting_def setting_names)
    qed
  qed
  with run show ?thesis by simp
qed

theorem deploySubpath_written_iff_preDeployTask_and_not_refused_witness:
  "list_ex (writesSetting preDeployTaskSetting)
     (events_since sampleWorld (snd (snd (setPreDeployTaskForDotnet sampleEnv sampleContext sampleWorld)))) \<and>
   \<not> list_ex (failsSetting deploySubpathSetting)
     (events_since sampleWorld (snd (snd (setPreDeployTaskForDotnet sampleEnv sampleContext sampleWorld)))) \<and>
   list_ex (writesSetting deploySubpathSetting)
     (events_since sampleWorld (snd (snd (setPreDeployTaskForDotnet sampleEnv sampleContext sampleWorld))))"
proof -
  have "list_ex (writesSetting preDeployTaskSetting)
     (events_since sampleWorld (snd (snd (setPreDeployTaskForDotnet sampleEnv sampleContext sampleWorld))))"
    "\<not> list_ex (failsSetting deploySubpathSetting)
     (events_since sampleWorld (snd (snd (setPreDeployTaskForDotnet sampleEnv sampleContext sampleWorld))))"
    by (simp_all add: sample_events writesSetting_def failsSetting_def)
  with deploySubpath_written_iff_preDeployTask_and_not_refused [of sampleWorld sampleEnv sampleContext]
  show ?thesis by simp
qed

text \<open>
  The claim as it was stated, both settings written or neither on every path, fails on
  the host that stores \<^verbatim>\<open>preDeployTask\<close> and refuses \<^verbatim>\<open>deploySubpath\<close>: the first is
  written and stored, the second is not.
\<close>

theorem preDeployTask_written_alone_counterexample:
  "list_ex (writesSetting preDeployTaskSetting)
     (events_since sampleWorld (snd (snd (setPreDeployTaskForDotnet refusingEnv sampleContext sampleWorld)))) \<and>
   \<not> list_ex (writesSetting deploySubpathSetting)
     (events_since sampleWorld (snd (snd (setPreDeployTaskForDotnet refusingEnv sampleContext sampleWorld)))) \<and>
   getWorkspaceSetting preDeployTaskSetting ''/ws''
     (snd (snd (setPreDeployTaskForDotnet refusingEnv sampleContext sampleWorld))) =
     Some (SString ''publish'') \<and>
   getWorkspaceSetting deploySubpathSetting ''/ws''
     (snd (snd (setPreDeployTaskForDotnet refusingEnv sampleContext sampleWorld))) = None"
proof -
  have "getWorkspaceSetting preDeployTaskSetting ''/ws''
     (snd (snd (setPreDeployTaskForDotnet refusingEnv sampleContext sampleWorld))) =
     Some (SString ''publish'')"
    "getWorkspaceSetting deploySubpathSetting ''/ws''
     (snd (snd (setPreDeployTaskForDotnet refusingEnv sampleContext sampleWorld))) = None"
    unfolding refusing_run
    by (simp_all add: getWorkspaceSetting_def preDeployTaskSetting_def deploySubpathSetting_def
        showPreDeployWarningSetting_def)
  then show ?thesis
    by (simp add: refusing_events writesSetting_def setting_names)
qed

text \<open>
  C5. When the workspace settings hold a non-empty \<^verbatim>\<open>preDeployTask\<close>, or a non-empty
  \<^verbatim>\<open>deploySubpath\<close>, or \<^verbatim>\<open>showPreDeployWarning\<close> set to false,
  \<open>setPreDeployTaskForDotnet\<close> returns with the context and the world as they were: nothing
  is added to the trace (no read of the file system, no prompt, no write of a setting or
  of the tasks), and the settings, the tasks and the telemetry are unchanged.
\<close>

theorem existing_configuration_is_respected:
  assumes "(\<exists>t. getWorkspaceSetting preDeployTaskSetting (fsPath (workspace context)) w = Some (SString t) \<and> t \<noteq> [])
         \<or> (\<exists>d. getWorkspaceSetting deploySubpathSetting (fsPath (workspace context)) w = Some (SString d) \<and> d \<noteq> [])
         \<or> getWorkspaceSetting showPreDeployWarningSetting (fsPath (workspace context)) w = Some (SBool False)"
  shows "setPreDeployTaskForDotnet env context w = (Inr (), context, w)"
proof -
  from assms consider
      "truthy (getWorkspaceSetting preDeployTaskSetting (fsPath (workspace context)) w)"
    | "truthy (getWorkspaceSetting deploySubpathSetting (fsPath (workspace context)) w)"
    | "\<not> truthy (getWorkspaceSetting showPreDeployWarningSetting (fsPath (workspace context)) w)"
    by (auto simp: truthy_def)
  then show ?thesis
    by cases (simp_all add: setPreDeployTaskForDotnet_def Let_def)
qed

theorem existing_configuration_is_respected_witness:
  "setPreDeployTaskForDotnet sampleEnv sampleContext configuredWorld =
     (Inr (), sampleContext, configuredWorld)"
proof (rule existing_configuration_is_respected)
  have "getWorkspaceSetting preDeployTaskSetting (fsPath (workspace sampleContext)) configuredWorld =
          Some (SString ''make'') \<and> ''make'' \<noteq> []"
    by (simp add: getWorkspaceSetting_def configuredWorld_def)
  then show "(\<exists>t. getWorkspaceSetting preDeployTaskSetting (fsPath (workspace sampleContext)) configuredWorld = Some (SString t) \<and> t \<noteq> [])
         \<or> (\<exists>d. getWorkspaceSetting deploySubpathSetting (fsPath (workspace sampleContext)) configuredWorld = Some (SString d) \<and> d \<noteq> [])
         \<or> getWorkspaceSetting showPreDeployWarningSetting (fsPath (workspace sampleContext)) configuredWorld = Some (SBool False)"
    by blast
qed

text \<open>
  C6. When the search of the workspace folder (or, when it holds no project file, of the
  folders one level below) finds two or more project files, \<open>setPreDeployTaskForDotnet\<close>
  returns normally with the context, the settings and the tasks unchanged, and its run
  shows no prompt and writes no setting and no task definition.
\<close>

theorem several_project_files_abandon_detection:
  assumes found: "fst (findProjectFiles env (fsPath (workspace context)) w) = Inr files"
    and many: "2 \<le> length files"
  shows "case setPreDeployTaskForDotnet env context w of
           (r, context', w') \<Rightarrow>
             r = Inr () \<and> context' = context \<and> settings w' = settings w \<and> tasks w' = tasks w \<and>
             \<not> list_ex isPrompt (events_since w w') \<and>
             \<not> list_ex isSettingWrite (events_since w w') \<and>
             \<not> list_ex isTaskWrite (events_since w w')"
proof -
  let ?ws = "fsPath (workspace context)"
  obtain w1 where "findProjectFiles env ?ws w = (Inr files, w1)"
    using found by (cases "findProjectFiles env ?ws w") simp
  from tryGetCsprojFile_many [OF this many]
  obtain w2 where none: "tryGetCsprojFile env ?ws w = (Inr None, w2)" ..
  have r2: "readsOnly w w2" by (rule tryGetCsprojFile_readsOnly [OF none])
  have "setPreDeployTaskForDotnet env context w = (Inr (), context, w) \<or>
        setPreDeployTaskForDotnet env context w = (Inr (), context, w2)"
    using none by (simp add: setPreDeployTaskForDotnet_def Let_def)
  then obtain w' where run: "setPreDeployTaskForDotnet env context w = (Inr (), context, w')"
    and r: "readsOnly w w'"
    using r2 readsOnly_refl by blast
  from r have "settings w' = settings w" "tasks w' = tasks w"
    by (simp_all add: readsOnly_def)
  with run isFsRead_not_write(2-4) [OF events_since_readsOnly [OF r]]
  show ?thesis by simp
qed

theorem several_project_files_abandon_detection_witness:
  "fst (setPreDeployTaskForDotnet twoProjectsEnv sampleContext sampleWorld) = Inr () \<and>
   fst (snd (setPreDeployTaskForDotnet twoProjectsEnv sampleContext sampleWorld)) = sampleContext \<and>
   settings (snd (snd (setPreDeployTaskForDotnet twoProjectsEnv sampleContext sampleWorld))) =
     settings sampleWorld \<and>
   tasks (snd (snd (setPreDeployTaskForDotnet twoProjectsEnv sampleContext sampleWorld))) =
     tasks sampleWorld \<and>
   \<not> list_ex isPrompt
       (events_since sampleWorld (snd (snd (setPreDeployTaskForDotnet twoProjectsEnv sampleContext sampleWorld)))) \<and>
   \<not> list_ex isSettingWrite
       (events_since sampleWorld (snd (snd (setPreDeployTaskForDotnet twoProjectsEnv sampleContext sampleWorld)))) \<and>
   \<not> list_ex isTaskWrite
       (events_since sampleWorld (snd (snd (setPreDeployTaskForDotnet twoProjectsEnv sampleContext sampleWorld))))"
proof -
  have many: "2 \<le> length [''/ws/A.csproj'', ''/ws/b.CSPROJ'']" by simp
  from several_project_files_abandon_detection [OF twoProjects_files many]
  show ?thesis by (simp add: case_prod_unfold)
qed

text \<open>
  C7. When the detection runs (the warning is on, no pre-deploy task and no subpath are
  configured, the path to deploy is the workspace folder), exactly one project file is
  found, the regular expression captures a non-empty target framework in its contents,
  the user answers Yes, and the host stores both settings, then the setting
  \<^verbatim>\<open>deploySubpath\<close> is the posix join of the folder of the project file relative to the
  workspace folder with \<^verbatim>\<open>bin/Release/<targetFramework>/publish\<close>, the setting
  \<^verbatim>\<open>preDeployTask\<close> is \<^verbatim>\<open>publish\<close>, and \<open>deployFsPath\<close> of the context is the workspace
  folder joined with that subpath. The target framework is text of the project file: it
  stands there between \<^verbatim>\<open><TargetFramework>\<close> and \<^verbatim>\<open></TargetFramework>\<close>, on one line.
\<close>

theorem accepted_prompt_sets_publish_defaults:
  assumes show_warning: "truthy (getWorkspaceSetting showPreDeployWarningSetting (fsPath (workspace context)) w)"
    and no_task: "\<not> truthy (getWorkspaceSetting preDeployTaskSetting (fsPath (workspace context)) w)"
    and no_subpath: "\<not> truthy (getWorkspaceSetting deploySubpathSetting (fsPath (workspace context)) w)"
    and root: "isPathEqual env (deployFsPath context) (fsPath (workspace context))"
    and one: "fst (tryGetCsprojFile env (fsPath (workspace context)) w) = Inr (Some csprojFile)"
    and contents: "readFile env csprojFile = Inr projContents"
    and framework: "matchTargetFramework projContents = Some targetFramework"
    and nonempty: "targetFramework \<noteq> []"
    and yes: "showWarningMessage env (notConfiguredForDeploy context)
                [DialogResponses_yes env, dontShowAgainButton] = Inr (DialogResponses_yes env)"
    and distinct: "DialogResponses_yes env \<noteq> dontShowAgainButton"
    and task_stored: "writeSetting env preDeployTaskSetting (SString ''publish'')
                        (fsPath (workspace context)) = Inr ()"
    and subpath_stored: "writeSetting env deploySubpathSetting
                        (SString (path_posix_join env
                           [path_dirname env (path_relative env (fsPath (workspace context)) csprojFile),
                            ''bin'', ''Release'', targetFramework, ''publish'']))
                        (fsPath (workspace context)) = Inr ()"
  shows "case setPreDeployTaskForDotnet env context w of
           (r, context', w') \<Rightarrow>
             r = Inr () \<and>
             getWorkspaceSetting deploySubpathSetting (fsPath (workspace context)) w' =
               Some (SString (path_posix_join env
                 [path_dirname env (path_relative env (fsPath (workspace context)) csprojFile),
                  ''bin'', ''Release'', targetFramework, ''publish''])) \<and>
             getWorkspaceSetting preDeployTaskSetting (fsPath (workspace context)) w' =
               Some (SString ''publish'') \<and>
             deployFsPath context' =
               path_join env [fsPath (workspace context),
                 path_posix_join env
                   [path_dirname env (path_relative env (fsPath (workspace context)) csprojFile),
                    ''bin'', ''Release'', targetFramework, ''publish'']] \<and>
             (\<exists>pre post. projContents =
                pre @ ''<TargetFramework>'' @ targetFramework @ ''</TargetFramework>'' @ post) \<and>
             \<not> list_ex lineTerminator targetFramework"
proof -
  obtain r context' w' where run: "setPreDeployTaskForDotnet env context w = (r, context', w')"
    by (cases "setPreDeployTaskForDotnet env context w")
  note accepted = setPreDeployTaskForDotnet_accepted
    [OF show_warning no_task no_subpath root one contents framework nonempty yes distinct]
  from run accepted have "addDotnetDefaults env context csprojFile targetFramework
             (emit (promptEvent env context)
                (setTelemetry ''tfw'' targetFramework
                   (emit (FsReadFile csprojFile)
                      (snd (tryGetCsprojFile env (fsPath (workspace context)) w))))) = (r, context', w')"
    by simp
  then have "r = Inr () \<and>
             getWorkspaceSetting deploySubpathSetting (fsPath (workspace context)) w' =
               Some (SString (path_posix_join env
                 [path_dirname env (path_relative env (fsPath (workspace context)) csprojFile),
                  ''bin'', ''Release'', targetFramework, ''publish''])) \<and>
             getWorkspaceSetting preDeployTaskSetting (fsPath (workspace context)) w' =
               Some (SString ''publish'') \<and>
             deployFsPath context' =
               path_join env [fsPath (workspace context),
                 path_posix_join env
                   [path_dirname env (path_relative env (fsPath (workspace context)) csprojFile),
                    ''bin'', ''Release'', targetFramework, ''publish'']]"
  proof (cases rule: addDotnetDefaults_cases)
    case (first_refused e)
    with task_stored show ?thesis by simp
  next
    case (second_refused e)
    with subpath_stored show ?thesis by simp
  next
    case stored
    then show ?thesis by (simp add: getWorkspaceSetting_def setting_names)
  qed
  with matchTargetFramework_sound [OF framework] run show ?thesis by simp
qed

theorem accepted_prompt_sets_publish_defaults_witness:
  "fst (setPreDeployTaskForDotnet sampleEnv sampleContext sampleWorld) = Inr () \<and>
   getWorkspaceSetting deploySubpathSetting ''/ws''
     (snd (snd (setPreDeployTaskForDotnet sampleEnv sampleContext sampleWorld))) =
     Some (SString ''bin/Release/net6.0/publish'') \<and>
   getWorkspaceSetting preDeployTaskSetting ''/ws''
     (snd (snd (setPreDeployTaskForDotnet sampleEnv sampleContext sampleWorld))) =
     Some (SString ''publish'') \<and>
   deployFsPath (fst (snd (setPreDeployTaskForDotnet sampleEnv sampleContext sampleWorld))) =
     ''/ws/bin/Release/net6.0/publish'' \<and>
   (\<exists>pre post. ''<Project><TargetFramework>net6.0</TargetFramework></Project>'' =
      pre @ ''<TargetFramework>'' @ ''net6.0'' @ ''</TargetFramework>'' @ post)"
proof -
  have nonempty: "''net6.0'' \<noteq> []" by simp
  have stored: "writeSetting sampleEnv preDeployTaskSetting (SString ''publish'')
                  (fsPath (workspace sampleContext)) = Inr ()"
    "writeSetting sampleEnv deploySubpathSetting
       (SString (path_posix_join sampleEnv
          [path_dirname sampleEnv (path_relative sampleEnv (fsPath (workspace sampleContext)) ''/ws/App.csproj''),
           ''bin'', ''Release'', ''net6.0'', ''publish'']))
       (fsPath (workspace sampleContext)) = Inr ()"
    by (simp_all add: sampleEnv_simps)
  note run = accepted_prompt_sets_publish_defaults
    [OF sample_settings sample_root(1) sample_one(1) sample_contents(1) sample_framework nonempty
      sample_yes stored]
  from run have "\<exists>pre post. ''<Project><TargetFramework>net6.0</TargetFramework></Project>'' =
      pre @ ''<TargetFramework>'' @ ''net6.0'' @ ''</TargetFramework>'' @ post"
    unfolding case_prod_unfold by (elim conjE)
  moreover from run have "fst (setPreDeployTaskForDotnet sampleEnv sampleContext sampleWorld) = Inr () \<and>
   getWorkspaceSetting deploySubpathSetting ''/ws''
     (snd (snd (setPreDeployTaskForDotnet sampleEnv sampleContext sampleWorld))) =
     Some (SString ''bin/Release/net6.0/publish'') \<and>
   getWorkspaceSetting preDeployTaskSetting ''/ws''
     (snd (snd (setPreDeployTaskForDotnet sampleEnv sampleContext sampleWorld))) =
     Some (SString ''publish'') \<and>
   deployFsPath (fst (snd (setPreDeployTaskForDotnet sampleEnv sampleContext sampleWorld))) =
     ''/ws/bin/Release/net6.0/publish''"
    unfolding case_prod_unfold sample_context sampleEnv_simps sample_paths by (elim conjE) simp
  ultimately show ?thesis by blast
qed

text \<open>
  Without the host storing both settings the claim fails: where the write of
  \<^verbatim>\<open>deploySubpath\<close> is refused, the one project file is found, its target framework is
  read and the user answers Yes, yet the run fails, \<^verbatim>\<open>deploySubpath\<close> stays unset and
  \<open>deployFsPath\<close> stays the workspace folder.
\<close>

theorem refused_subpath_leaves_defaults_unset_counterexample:
  "fst (tryGetCsprojFile refusingEnv (fsPath (workspace sampleContext)) sampleWorld) =
     Inr (Some ''/ws/App.csproj'') \<and>
   readFile refusingEnv ''/ws/App.csproj'' =
     Inr ''<Project><TargetFramework>net6.0</TargetFramework></Project>'' \<and>
   matchTargetFramework ''<Project><TargetFramework>net6.0</TargetFramework></Project>'' =
     Some ''net6.0'' \<and>
   showWarningMessage refusingEnv (notConfiguredForDeploy sampleContext)
     [DialogResponses_yes refusingEnv, dontShowAgainButton] = Inr (DialogResponses_yes refusingEnv) \<and>
   fst (setPreDeployTaskForDotnet refusingEnv sampleContext sampleWorld) =
     Inl (Error ''Unable to write settings'') \<and>
   getWorkspaceSetting deploySubpathSetting ''/ws''
     (snd (snd (setPreDeployTaskForDotnet refusingEnv sampleContext sampleWorld))) = None \<and>
   deployFsPath (fst (snd (setPreDeployTaskForDotnet refusingEnv sampleContext sampleWorld))) = ''/ws''"
proof -
  have "getWorkspaceSetting deploySubpathSetting ''/ws''
     (snd (snd (setPreDeployTaskForDotnet refusingEnv sampleContext sampleWorld))) = None"
    "fst (setPreDeployTaskForDotnet refusingEnv sampleContext sampleWorld) =
     Inl (Error ''Unable to write settings'')"
    "deployFsPath (fst (snd (setPreDeployTaskForDotnet refusingEnv sampleContext sampleWorld))) = ''/ws''"
    unfolding refusing_run
    by (simp_all add: getWorkspaceSetting_def preDeployTaskSetting_def deploySubpathSetting_def
        showPreDeployWarningSetting_def sample_context)
  with sample_one(2) sample_contents(2) sample_framework refusing_yes(1) show ?thesis by blast
qed




section \<open>Facts about deploy\<close>

subsection \<open>Up to the confirmation\<close>

lemma quietlyTo_refl: "quietlyTo w w"
  by (simp add: quietlyTo_def)

lemma quietlyTo_trans: "quietlyTo w w1 \<Longrightarrow> quietlyTo w1 w2 \<Longrightarrow> quietlyTo w w2"
  by (auto simp: quietlyTo_def)

lemma quietlyTo_emit: "beforeConfirmation e \<Longrightarrow> quietlyTo w (emit e w)"
  by (simp add: quietlyTo_def emit_def)

lemma quietlyTo_setTelemetry: "quietlyTo w (setTelemetry k v w)"
  by (simp add: quietlyTo_def setTelemetry_def)

lemma quietlyTo_emit_after: "quietlyTo w w1 \<Longrightarrow> beforeConfirmation e \<Longrightarrow> quietlyTo w (emit e w1)"
  by (auto simp: quietlyTo_def emit_def)

lemma quietlyTo_setTelemetry_after: "quietlyTo w w1 \<Longrightarrow> quietlyTo w (setTelemetry k v w1)"
  by (auto simp: quietlyTo_def setTelemetry_def)

lemma getEarlySiteConfig_quiet:
  "getEarlySiteConfig env t w = (r, w') \<Longrightarrow> quietlyTo w w'"
  by (auto simp: getEarlySiteConfig_def Let_def beforeConfirmation_def
      split: target.splits sum.splits intro!: quietlyTo_emit quietlyTo_refl)

lemma getDeployContext_quiet:
  "getDeployContext env t sc w = (r, w') \<Longrightarrow> quietlyTo w w'"
  by (auto simp: getDeployContext_def Let_def beforeConfirmation_def
      split: sum.splits option.splits intro!: quietlyTo_emit)

lemma pickNode_quiet:
  "pickNode env dc w = (r, w') \<Longrightarrow> quietlyTo w w'"
  by (auto simp: pickNode_def Let_def beforeConfirmation_def
      split: sum.splits option.splits prod.splits if_splits
      intro!: quietlyTo_emit_after quietlyTo_setTelemetry_after quietlyTo_refl)

lemma newNodesLoop_quiet:
  "newNodesLoop newNodes node c w = (c', w') \<Longrightarrow> quietlyTo w w'"
proof (induction newNodes arbitrary: c w)
  case Nil
  then show ?case by (simp add: quietlyTo_refl)
next
  case (Cons a newNodes)
  show ?case
  proof (cases "fullId a = fullId node")
    case True
    with Cons.prems have "newNodesLoop newNodes node False (emit (GetSiteConfigDetached (fullId a)) w) = (c', w')"
      by simp
    from Cons.IH [OF this] show ?thesis
      by (rule quietlyTo_trans [rotated]) (simp add: quietlyTo_emit beforeConfirmation_def)
  next
    case False
    with Cons.prems Cons.IH show ?thesis by simp
  qed
qed

lemma newNodesLoop_confirm:
  "fst (newNodesLoop newNodes node c w) = (c \<and> \<not> list_ex (\<lambda>newApp. fullId newApp = fullId node) newNodes)"
  by (induction newNodes arbitrary: c w) auto

lemma fetchSiteConfig_quiet:
  "fetchSiteConfig env sc node w = (r, w') \<Longrightarrow> quietlyTo w w'"
  by (auto simp: fetchSiteConfig_def Let_def beforeConfirmation_def
      split: sum.splits option.splits intro!: quietlyTo_emit quietlyTo_refl)

lemma javaArtifactStep_quiet:
  "javaArtifactStep env node sc dc w = (r, w') \<Longrightarrow> quietlyTo w w'"
  by (auto simp: javaArtifactStep_def Let_def beforeConfirmation_def
      split: sum.splits option.splits if_splits prod.splits
      intro!: quietlyTo_emit_after quietlyTo_refl)

lemma awaitPromptScmDoBuildDeploy_quiet:
  "awaitPromptScmDoBuildDeploy env node p rt w = (r, w') \<Longrightarrow> quietlyTo w w'"
  by (auto simp: awaitPromptScmDoBuildDeploy_def Let_def beforeConfirmation_def
      split: sum.splits intro!: quietlyTo_emit)

lemma quietlyTo_from_emit:
  "quietlyTo (emit e w) w' \<Longrightarrow> beforeConfirmation e \<Longrightarrow> quietlyTo w w'"
  by (auto simp: quietlyTo_def emit_def)

lemma buildDuringDeployStep_quiet:
  "buildDuringDeployStep env node sc dc w = (r, w') \<Longrightarrow> quietlyTo w w'"
  apply (auto simp: buildDuringDeployStep_def Let_def beforeConfirmation_def
      split: sum.splits option.splits if_splits
      dest!: awaitPromptScmDoBuildDeploy_quiet
      intro!: quietlyTo_emit_after quietlyTo_refl)
   apply (erule quietlyTo_from_emit, simp add: beforeConfirmation_def)+
  done

lemma pickNode_context:
  "pickNode env dc w = (Inr (node, dc'), w') \<Longrightarrow> workspace dc' = workspace dc"
  by (auto simp: pickNode_def Let_def split: sum.splits option.splits prod.splits)

lemma javaArtifactStep_context:
  "javaArtifactStep env node sc dc w = (Inr dc', w') \<Longrightarrow>
   workspace dc' = workspace dc \<and> deployedWithConfigs dc' = deployedWithConfigs dc"
  by (auto simp: javaArtifactStep_def Let_def split: sum.splits if_splits prod.splits)

text \<open>How \<open>deployToNode\<close> reaches the confirmation, if it does.\<close>

lemma deployToNode_cases:
  assumes run: "deployToNode env confirmDeployment node newNodes siteConfig0 deployContext w = (r, w')"
  obtains
    (stopped) e where "r = Inl e" "quietlyTo w w'"
  | (confirming) siteConfig deployContext' w5 c w6 where
      "quietlyTo w w5"
      "workspace deployContext' = workspace deployContext"
      "deployedWithConfigs deployContext' = deployedWithConfigs deployContext"
      "confirmStep env
         (confirmDeployment \<and> \<not> list_ex (\<lambda>newApp. fullId newApp = fullId node) newNodes)
         node siteConfig deployContext' w5 = (c, w6)"
      "case c of
         Inl e \<Rightarrow> r = Inl e \<and> w' = w6
       | Inr Returned \<Rightarrow> r = Inr () \<and> w' = w6
       | Inr Proceed \<Rightarrow>
           transferStep env node siteConfig deployContext' (getRandomHexString env) w6 = (r, w')"
proof -
  obtain c1 w1 where l: "(if length newNodes > 0 then newNodesLoop newNodes node confirmDeployment w
            else (confirmDeployment, w)) = (c1, w1)"
    by (cases "if length newNodes > 0 then newNodesLoop newNodes node confirmDeployment w
            else (confirmDeployment, w)")
  have c1: "c1 = (confirmDeployment \<and> \<not> list_ex (\<lambda>newApp. fullId newApp = fullId node) newNodes)"
    using l newNodesLoop_confirm [of newNodes node confirmDeployment w]
    by (cases newNodes) (auto split: if_splits)
  have q1: "quietlyTo w w1"
    using l by (auto split: if_splits intro: newNodesLoop_quiet quietlyTo_refl)
  let ?w2 = "setTelemetry ''correlationId'' (getRandomHexString env) w1"
  have q2: "quietlyTo w ?w2" using q1 by (rule quietlyTo_setTelemetry_after)
  obtain s w3 where s: "fetchSiteConfig env siteConfig0 node ?w2 = (s, w3)"
    by (cases "fetchSiteConfig env siteConfig0 node ?w2")
  have q3: "quietlyTo w w3" using q2 fetchSiteConfig_quiet [OF s] by (rule quietlyTo_trans)
  note run1 = run [unfolded deployToNode_def l Let_def]
  show thesis
  proof (cases s)
    case (Inl e)
    with run1 s have "r = Inl e" "w' = w3" by simp_all
    with q3 show thesis by (intro stopped) simp_all
  next
    case (Inr siteConfig)
    obtain j w4 where j: "javaArtifactStep env node siteConfig deployContext w3 = (j, w4)"
      by (cases "javaArtifactStep env node siteConfig deployContext w3")
    have q4: "quietlyTo w w4" using q3 javaArtifactStep_quiet [OF j] by (rule quietlyTo_trans)
    show thesis
    proof (cases j)
      case (Inl e)
      with run1 s Inr j have "r = Inl e" "w' = w4" by simp_all
      with q4 show thesis by (intro stopped) simp_all
    next
      case dc: (Inr deployContext')
      obtain b w5 where b: "buildDuringDeployStep env node siteConfig deployContext' w4 = (b, w5)"
        by (cases "buildDuringDeployStep env node siteConfig deployContext' w4")
      have q5: "quietlyTo w w5" using q4 buildDuringDeployStep_quiet [OF b] by (rule quietlyTo_trans)
      show thesis
      proof (cases b)
        case (Inl e)
        with run1 s Inr j dc b have "r = Inl e" "w' = w5" by simp_all
        with q5 show thesis by (intro stopped) simp_all
      next
        case u: (Inr u)
        obtain c w6 where c: "confirmStep env c1 node siteConfig deployContext' w5 = (c, w6)"
          by (cases "confirmStep env c1 node siteConfig deployContext' w5")
        have "case c of
               Inl e \<Rightarrow> r = Inl e \<and> w' = w6
             | Inr Returned \<Rightarrow> r = Inr () \<and> w' = w6
             | Inr Proceed \<Rightarrow>
                 transferStep env node siteConfig deployContext' (getRandomHexString env) w6 = (r, w')"
          using run1 s Inr j dc b u c by (auto split: sum.splits confirmation.splits)
        with q5 c javaArtifactStep_context [OF j [unfolded dc]] show thesis
          unfolding c1 by (intro confirming) simp_all
      qed
    qed
  qed
qed

lemma fst_getEarlySiteConfig:
  "fst (getEarlySiteConfig env t w) = fst (getEarlySiteConfig env t w0)"
  by (simp add: getEarlySiteConfig_def Let_def split: target.splits sum.splits)

lemma fst_getDeployContext:
  "fst (getDeployContext env t sc w) = fst (getDeployContext env t sc w0)"
  by (simp add: getDeployContext_def Let_def split: sum.splits option.splits)

lemma fst_pickNode:
  "fst (pickNode env dc w) = fst (pickNode env dc w0)"
  by (simp add: pickNode_def Let_def split: sum.splits option.splits prod.splits)

lemma getEarlySiteConfig_no_node:
  "\<forall>n. t \<noteq> NodeTarget n \<Longrightarrow> getEarlySiteConfig env t w = (Inr (None, None), w)"
  by (cases t) (simp_all add: getEarlySiteConfig_def)

text \<open>\<open>deploy\<close> without a node to start from, when the target is picked.\<close>

lemma deploy_picked:
  assumes no_node: "\<forall>n. target' \<noteq> NodeTarget n"
    and ctx: "fst (getDeployContext env target' None w) = Inr deployContext"
    and picked: "fst (pickNode env deployContext w) = Inr (node, deployContext')"
  shows "\<exists>w3. quietlyTo w w3 \<and>
           deploy env confirmDeployment target' w =
           deployToNode env confirmDeployment node (createdNodes env) None deployContext' w3"
proof -
  let ?w0 = "setTelemetry ''deployedWithConfigs'' ''false'' w"
  have q0: "quietlyTo w ?w0" by (rule quietlyTo_setTelemetry)
  obtain g w2 where g: "getDeployContext env target' None ?w0 = (g, w2)"
    by (cases "getDeployContext env target' None ?w0")
  have "g = Inr deployContext"
    using ctx fst_getDeployContext [of env target' None ?w0 w] g by simp
  note g = g [unfolded this]
  have q2: "quietlyTo w w2" using q0 getDeployContext_quiet [OF g] by (rule quietlyTo_trans)
  obtain p w3 where p: "pickNode env deployContext w2 = (p, w3)"
    by (cases "pickNode env deployContext w2")
  have "p = Inr (node, deployContext')"
    using picked fst_pickNode [of env deployContext w2 w] p by simp
  note p = p [unfolded this]
  have q3: "quietlyTo w w3" using q2 pickNode_quiet [OF p] by (rule quietlyTo_trans)
  have "deploy env confirmDeployment target' w =
          deployToNode env confirmDeployment node (createdNodes env) None deployContext' w3"
    by (simp add: deploy_def getEarlySiteConfig_no_node [OF no_node] g p)
  with q3 show ?thesis by blast
qed

text \<open>How \<open>deploy\<close> reaches the confirmation, if it does.\<close>

lemma deploy_cases:
  assumes run: "deploy env confirmDeployment target' w = (r, w')"
  obtains
    (stopped) e where "r = Inl e" "quietlyTo w w'"
  | (confirming) confirmDeployment' node siteConfig deployContext w5 c w6 node0 siteConfig0
      deployContext0 where
      "quietlyTo w w5"
      "confirmStep env confirmDeployment' node siteConfig deployContext w5 = (c, w6)"
      "case c of
         Inl e \<Rightarrow> r = Inl e \<and> w' = w6
       | Inr Returned \<Rightarrow> r = Inr () \<and> w' = w6
       | Inr Proceed \<Rightarrow>
           transferStep env node siteConfig deployContext (getRandomHexString env) w6 = (r, w')"
      "fst (getEarlySiteConfig env target' w) = Inr (node0, siteConfig0)"
      "fst (getDeployContext env target' siteConfig0 w) = Inr deployContext0"
      "workspace deployContext = workspace deployContext0"
proof -
  let ?w0 = "setTelemetry ''deployedWithConfigs'' ''false'' w"
  have q0: "quietlyTo w ?w0" by (rule quietlyTo_setTelemetry)
  obtain a w1 where a: "getEarlySiteConfig env target' ?w0 = (a, w1)"
    by (cases "getEarlySiteConfig env target' ?w0")
  have q1: "quietlyTo w w1" using q0 getEarlySiteConfig_quiet [OF a] by (rule quietlyTo_trans)
  note run1 = run [unfolded deploy_def]
  show thesis
  proof (cases a)
    case (Inl e)
    with run1 a have "r = Inl e" "w' = w1" by simp_all
    with q1 show thesis by (intro stopped) simp_all
  next
    case (Inr found)
    obtain node0 siteConfig0 where found: "found = (node0, siteConfig0)" by (cases found)
    obtain g w2 where g: "getDeployContext env target' siteConfig0 w1 = (g, w2)"
      by (cases "getDeployContext env target' siteConfig0 w1")
    have q2: "quietlyTo w w2" using q1 getDeployContext_quiet [OF g] by (rule quietlyTo_trans)
    show thesis
    proof (cases g)
      case (Inl e)
      with run1 a Inr found g have "r = Inl e" "w' = w2" by simp_all
      with q2 show thesis by (intro stopped) simp_all
    next
      case dc: (Inr deployContext)
      have early: "fst (getEarlySiteConfig env target' w) = Inr (node0, siteConfig0)"
        using a Inr found fst_getEarlySiteConfig [of env target' w ?w0] by simp
      have ctx: "fst (getDeployContext env target' siteConfig0 w) = Inr deployContext"
        using g dc fst_getDeployContext [of env target' siteConfig0 w w1] by simp
      have "\<exists>node newNodes deployContext' w3.
              quietlyTo w w3 \<and> workspace deployContext' = workspace deployContext \<and>
              deployToNode env confirmDeployment node newNodes siteConfig0 deployContext' w3 = (r, w')
            \<or> (\<exists>e. r = Inl e) \<and> quietlyTo w w'"
      proof (cases node0)
        case (Some node)
        with run1 a Inr found g dc
        have "deployToNode env confirmDeployment node [] siteConfig0 deployContext w2 = (r, w')"
          by simp
        with q2 show ?thesis by blast
      next
        case None
        obtain p w3 where p: "pickNode env deployContext w2 = (p, w3)"
          by (cases "pickNode env deployContext w2")
        have q3: "quietlyTo w w3" using q2 pickNode_quiet [OF p] by (rule quietlyTo_trans)
        show ?thesis
        proof (cases p)
          case (Inl e)
          with run1 a Inr found g dc None p have "r = Inl e" "w' = w3" by simp_all
          with q3 show ?thesis by blast
        next
          case picked: (Inr picked)
          obtain node deployContext' where pk: "picked = (node, deployContext')" by (cases picked)
          with run1 a Inr found g dc None p picked
          have "deployToNode env confirmDeployment node (createdNodes env) siteConfig0
                  deployContext' w3 = (r, w')"
            by simp
          moreover have "workspace deployContext' = workspace deployContext"
            using p picked pk by (intro pickNode_context [of env deployContext w2 node deployContext' w3]) simp
          ultimately show ?thesis using q3 by blast
        qed
      qed
      then show thesis
      proof (elim disjE exE conjE)
        fix node newNodes deployContext' w3
        assume q3: "quietlyTo w w3"
          and same: "workspace deployContext' = workspace deployContext"
          and d: "deployToNode env confirmDeployment node newNodes siteConfig0 deployContext' w3 = (r, w')"
        from d show thesis
        proof (cases rule: deployToNode_cases)
          case (stopped e)
          with q3 show ?thesis by (intro that(1) [of e]) (auto intro: quietlyTo_trans)
        next
          case (confirming siteConfig deployContext'' w5 c w6)
          from q3 confirming(1) have q5: "quietlyTo w w5" by (rule quietlyTo_trans)
          from confirming(2) same have ws: "workspace deployContext'' = workspace deployContext"
            by simp
          show ?thesis by (rule that(2) [OF q5 confirming(4) confirming(5) early ctx ws])
        qed
      next
        fix e assume "r = Inl e" "quietlyTo w w'"
        then show thesis by (rule that(1))
      qed
    qed
  qed
qed

subsection \<open>The confirmation and after\<close>

lemma quiet_events: "quietlyTo w w' \<Longrightarrow> list_all beforeConfirmation (events_since w w')"
  by (auto simp: quietlyTo_def events_since_def)

lemma events_since_after_quiet:
  "quietlyTo w w5 \<Longrightarrow> trace w6 = trace w5 @ xs \<Longrightarrow> events_since w w6 = events_since w w5 @ xs"
  by (auto simp: quietlyTo_def events_since_def)

lemma beforeConfirmation_not:
  "list_all beforeConfirmation evs \<Longrightarrow> \<not> list_ex isPrompt evs"
  "list_all beforeConfirmation evs \<Longrightarrow> \<not> list_ex isPreDeployOrTransfer evs"
  "list_all beforeConfirmation evs \<Longrightarrow> \<not> list_ex isSettingWrite evs"
  by (auto simp: list_all_iff list_ex_iff beforeConfirmation_def isPrompt_def
      isPreDeployOrTransfer_def isSettingWrite_def split: event.splits)

lemma confirmStep_skipped:
  "\<not> confirmDeployment \<or> scmType siteConfig = Some ScmType_LocalGit \<Longrightarrow>
   confirmStep env confirmDeployment node siteConfig deployContext w = (Inr Proceed, w)"
  by (auto simp: confirmStep_def)

lemma confirmStep_trace:
  assumes "confirmStep env confirmDeployment node siteConfig deployContext w = (c, w6)"
  shows "\<exists>xs. trace w6 = trace w @ xs \<and> \<not> list_ex isPreDeployOrTransfer xs \<and>
              (list_ex isPrompt xs \<longleftrightarrow>
                 confirmDeployment \<and> scmType siteConfig \<noteq> Some ScmType_LocalGit)"
proof (cases "confirmDeployment \<and> scmType siteConfig \<noteq> Some ScmType_LocalGit")
  case False
  then have "\<not> confirmDeployment \<or> scmType siteConfig = Some ScmType_LocalGit" by blast
  from confirmStep_skipped [OF this] assms have "w6 = w" by simp
  with False show ?thesis by simp
next
  case True
  with assms show ?thesis
    by (auto simp: confirmStep_def Let_def strictNotEqual_def emit_def setTelemetry_def
        updateWorkspaceSetting_def isPrompt_def isPreDeployOrTransfer_def
        split: sum.splits if_splits prod.splits)
qed

lemma transferStep_trace:
  assumes "transferStep env node siteConfig deployContext correlationId w = (r, w')"
  shows "\<exists>xs. trace w' = trace w @ xs \<and> \<not> list_ex isPrompt xs \<and> list_ex isPreDeployOrTransfer xs"
  using assms
  by (auto simp: transferStep_def Let_def emit_def isPrompt_def isPreDeployOrTransfer_def
      split: sum.splits if_splits)

lemma confirmStep_reset:
  assumes "confirmDeployment" "scmType siteConfig \<noteq> Some ScmType_LocalGit"
    and "showWarningMessage env (warning node)
           ([AppServiceDialogResponses_deploy env] @
            (if deployedWithConfigs deployContext then [resetDefault] else []) @
            [DialogResponses_cancel env]) = Inr resetDefault"
    and "openTextDocument env
           (path_join env [fsPath (workspace deployContext), ''.vscode'', ''settings.json'']) = Inr ()"
    and "writeSetting env defaultWebAppToDeploySetting (SString [])
           (fsPath (workspace deployContext)) = Inr ()"
    and "executeCommand env ''appService.Deploy'' = Inr ()"
    and "confirmStep env confirmDeployment node siteConfig deployContext w = (c, w6)"
  shows "c = Inr Returned"
    and "trace w6 = trace w @
      [Delay 500,
       ShowWarningMessage (warning node)
         ([AppServiceDialogResponses_deploy env] @
          (if deployedWithConfigs deployContext then [resetDefault] else []) @
          [DialogResponses_cancel env]),
       OpenTextDocument (path_join env [fsPath (workspace deployContext), ''.vscode'', ''settings.json'']),
       ShowTextDocument (path_join env [fsPath (workspace deployContext), ''.vscode'', ''settings.json'']),
       UpdateWorkspaceSetting defaultWebAppToDeploySetting (SString []) (fsPath (workspace deployContext)),
       ExecuteCommand ''appService.Deploy'']"
    and "getWorkspaceSetting defaultWebAppToDeploySetting (fsPath (workspace deployContext)) w6 =
           Some (SString [])"
  using assms
  by (auto simp: confirmStep_def Let_def strictNotEqual_def updateWorkspaceSetting_def emit_def
      setTelemetry_def getWorkspaceSetting_def)

text \<open>A run of \<open>deploy\<close> that has shown the confirmation.\<close>

lemma deploy_prompt_cases:
  assumes run: "deploy env confirmDeployment target' w = (r, w')"
    and shown: "list_ex isPrompt (events_since w w')"
  obtains node siteConfig deployContext w5 c w6 node0 siteConfig0 deployContext0 where
    "quietlyTo w w5"
    "scmType siteConfig \<noteq> Some ScmType_LocalGit"
    "confirmStep env True node siteConfig deployContext w5 = (c, w6)"
    "case c of
       Inl e \<Rightarrow> r = Inl e \<and> w' = w6
     | Inr Returned \<Rightarrow> r = Inr () \<and> w' = w6
     | Inr Proceed \<Rightarrow>
         transferStep env node siteConfig deployContext (getRandomHexString env) w6 = (r, w')"
    "fst (getEarlySiteConfig env target' w) = Inr (node0, siteConfig0)"
    "fst (getDeployContext env target' siteConfig0 w) = Inr deployContext0"
    "workspace deployContext = workspace deployContext0"
  using run
proof (cases rule: deploy_cases)
  case (stopped e)
  with shown beforeConfirmation_not(1) [OF quiet_events] show ?thesis by blast
next
  case (confirming confirmDeployment' node siteConfig deployContext w5 c w6 node0 siteConfig0
      deployContext0)
  have q: "\<not> list_ex isPrompt (events_since w w5)"
    using beforeConfirmation_not(1) [OF quiet_events [OF confirming(1)]] .
  have asked: "confirmDeployment' \<and> scmType siteConfig \<noteq> Some ScmType_LocalGit"
  proof (rule ccontr)
    assume no: "\<not> (confirmDeployment' \<and> scmType siteConfig \<noteq> Some ScmType_LocalGit)"
    then have "\<not> confirmDeployment' \<or> scmType siteConfig = Some ScmType_LocalGit" by blast
    from confirmStep_skipped [OF this] confirming(2) have c: "c = Inr Proceed" "w6 = w5" by simp_all
    with confirming(3)
    have "transferStep env node siteConfig deployContext (getRandomHexString env) w5 = (r, w')"
      by simp
    from transferStep_trace [OF this] obtain ys where
      "trace w' = trace w5 @ ys" "\<not> list_ex isPrompt ys" by blast
    with events_since_after_quiet [OF confirming(1) this(1)] q shown
    show False by simp
  qed
  with confirming(2) have "confirmStep env True node siteConfig deployContext w5 = (c, w6)"
    by simp
  from that [OF confirming(1) _ this confirming(3) confirming(4) confirming(5) confirming(6)] asked
  show ?thesis by blast
qed

text \<open>A site deployed from GitHub is asked about like any other.\<close>

lemma confirmStep_github:
  assumes "scmType siteConfig = Some ScmType_GitHub"
  shows "list_ex isPrompt
           (events_since w (snd (confirmStep env True node siteConfig deployContext w)))"
proof -
  obtain c w6 where c: "confirmStep env True node siteConfig deployContext w = (c, w6)"
    by (cases "confirmStep env True node siteConfig deployContext w")
  from confirmStep_trace [OF c] assms show ?thesis
    by (auto simp: c events_since_def ScmType_GitHub_def ScmType_LocalGit_def)
qed

subsection \<open>The sample host at work\<close>

lemmas deploy_defs = deploy_def getEarlySiteConfig_def getDeployContext_def javaFileExtension_def
  pickNode_def deployToNode_def fetchSiteConfig_def javaArtifactStep_def buildDuringDeployStep_def
  confirmStep_def transferStep_def strictNotEqual_def Let_def

lemmas sample_eval = githubEnv_def resetEnv_def unopenedEnv_def freshEnv_def elsewhereEnv_def
  sampleEnv_simps joinPath_def
  events_since_def emit_def setTelemetry_def updateWorkspaceSetting_def
  getWorkspaceSetting_def truthy_def sampleWorld_def sampleFolder_def ScmType_GitHub_def
  ScmType_LocalGit_def showBuildDuringDeployPromptSetting_def showPreDeployWarningSetting_def
  resetDefault_def

lemma github_trace:
  "events_since sampleWorld (snd (deploy githubEnv True NoTarget sampleWorld)) =
     [GetDeployFsPath, OnTreeItemCreate, GetDefaultWebAppToDeploy, ShowTreeItemPicker ''appService'',
      Dispose, GetSiteConfig (fullId sampleNode), Delay 500,
      ShowWarningMessage (warning sampleNode) [MessageItem ''Deploy'', MessageItem ''Cancel''],
      PromptToSaveDeployDefaults ''/ws'' ''/ws'', RunPreDeployTask ''/ws'' (Some ''GitHub''),
      CancelWebsiteValidation (fullId sampleNode), AppserviceDeploy (fullId sampleNode) ''/ws'',
      AppendLine (deployComplete sampleNode), ShowInformationMessage (deployComplete sampleNode),
      ValidateWebSite ''c0ffee'' (fullId sampleNode)]"
  by (simp add: deploy_defs githubEnv_def sampleEnv_simps events_since_def emit_def setTelemetry_def
      getWorkspaceSetting_def truthy_def sampleWorld_def sampleFolder_def ScmType_GitHub_def
      ScmType_LocalGit_def showBuildDuringDeployPromptSetting_def showPreDeployWarningSetting_def
      resetDefault_def)

lemma reset_trace:
  "events_since defaultedWorld (snd (deploy resetEnv True NoTarget defaultedWorld)) =
     [GetDeployFsPath, OnTreeItemCreate, GetDefaultWebAppToDeploy, Dispose,
      GetSiteConfig (fullId sampleNode), Delay 500,
      ShowWarningMessage (warning sampleNode)
        [MessageItem ''Deploy'', MessageItem ''Reset default'', MessageItem ''Cancel''],
      OpenTextDocument ''/ws/.vscode/settings.json'', ShowTextDocument ''/ws/.vscode/settings.json'',
      UpdateWorkspaceSetting defaultWebAppToDeploySetting (SString []) ''/ws'',
      ExecuteCommand ''appService.Deploy'']"
  by (simp add: deploy_defs sample_eval sampleSiteConfig_def defaultedWorld_def)

lemma unopened_run:
  "fst (deploy unopenedEnv True NoTarget defaultedWorld) = Inl (Error ''cannot open settings.json'')"
  "events_since defaultedWorld (snd (deploy unopenedEnv True NoTarget defaultedWorld)) =
     [GetDeployFsPath, OnTreeItemCreate, GetDefaultWebAppToDeploy, Dispose,
      GetSiteConfig (fullId sampleNode), Delay 500,
      ShowWarningMessage (warning sampleNode)
        [MessageItem ''Deploy'', MessageItem ''Reset default'', MessageItem ''Cancel''],
      OpenTextDocument ''/ws/.vscode/settings.json'']"
  "getWorkspaceSetting defaultWebAppToDeploySetting ''/ws''
     (snd (deploy unopenedEnv True NoTarget defaultedWorld)) =
     Some (SString ''/subscriptions/s/sites/app'')"
  by (simp_all add: deploy_defs sample_eval sampleSiteConfig_def defaultedWorld_def
      defaultWebAppToDeploySetting_def)

subsection \<open>The claims\<close>

text \<open>
  C1. The claim is that with \<open>confirmDeployment\<close> true and a target that was not just
  created, the warning is skipped when the site's \<open>scmType\<close> is LocalGit and when it is
  GitHub. The condition of the code compares \<open>scmType\<close> with LocalGit, and the site
  configuration itself, an object, with GitHub, which never holds: on the sample host
  with a site whose \<open>scmType\<close> is GitHub, a target picked from the tree and
  \<open>confirmDeployment\<close> true, the warning is shown.
\<close>

theorem github_site_is_still_confirmed:
  "scmType \<lparr>linuxFxVersion = None, scmType = Some ScmType_GitHub\<rparr> = Some ScmType_GitHub \<and>
   list_ex isPrompt (events_since sampleWorld (snd (deploy githubEnv True NoTarget sampleWorld)))"
  by (simp add: github_trace isPrompt_def)

text \<open>
  C2. When the path to deploy has been resolved and no workspace folder contains it,
  \<open>deploy\<close> fails with the error "Failed to deploy because the path is not part of an
  open workspace...". What it has done by then is the resolution of the path and, when
  the target is a node of the tree, before it the fetch of that node's site
  configuration: no remote call for no target or a path, and that one remote call for a
  node.
\<close>

theorem outside_workspace_fails_after_early_fetch_only:
  assumes early: "fst (getEarlySiteConfig env target' w) = Inr (node0, siteConfig0)"
    and path: "getDeployFsPath env target' (javaFileExtension env siteConfig0) = Inr p"
    and outside: "getContainingWorkspace env p = None"
  shows "fst (deploy env confirmDeployment target' w) = Inl noWorkspaceError \<and>
         events_since w (snd (deploy env confirmDeployment target' w)) =
           (case target' of NodeTarget node \<Rightarrow> [GetSiteConfig (fullId node)] | _ \<Rightarrow> []) @
           [GetDeployFsPath] \<and>
         filter isRemoteCall (events_since w (snd (deploy env confirmDeployment target' w))) =
           (case target' of NodeTarget node \<Rightarrow> [GetSiteConfig (fullId node)] | _ \<Rightarrow> [])"
  using assms
  by (cases target')
    (auto simp: deploy_def getEarlySiteConfig_def getDeployContext_def Let_def events_since_def
      emit_def setTelemetry_def isRemoteCall_def split: sum.splits)

theorem outside_workspace_fails_after_early_fetch_only_witness:
  "fst (deploy sampleEnv True (UriTarget ''/elsewhere'') sampleWorld) = Inl noWorkspaceError \<and>
   filter isRemoteCall
     (events_since sampleWorld (snd (deploy sampleEnv True (UriTarget ''/elsewhere'') sampleWorld))) = []"
proof -
  have a: "fst (getEarlySiteConfig sampleEnv (UriTarget ''/elsewhere'') sampleWorld) = Inr (None, None)"
    by (simp add: getEarlySiteConfig_def)
  have b: "getDeployFsPath sampleEnv (UriTarget ''/elsewhere'') (javaFileExtension sampleEnv None) =
             Inr ''/elsewhere''"
    by (simp add: sampleEnv_simps)
  have c: "getContainingWorkspace sampleEnv ''/elsewhere'' = None"
    by (simp add: sampleEnv_simps)
  from outside_workspace_fails_after_early_fetch_only [OF a b c, of True] show ?thesis
    by (simp add: isRemoteCall_def)
qed

text \<open>
  The claim as it was stated, no remote call before the failure for a node of the tree
  as well, fails on the sample host when the path resolved for the node lies outside the
  workspace: the site configuration of the node has been fetched.
\<close>

theorem tree_item_outside_workspace_counterexample:
  "getContainingWorkspace elsewhereEnv ''/elsewhere'' = None \<and>
   fst (deploy elsewhereEnv True (NodeTarget sampleNode) sampleWorld) = Inl noWorkspaceError \<and>
   events_since sampleWorld (snd (deploy elsewhereEnv True (NodeTarget sampleNode) sampleWorld)) =
     [GetSiteConfig (fullId sampleNode), GetDeployFsPath] \<and>
   list_ex isRemoteCall
     (events_since sampleWorld (snd (deploy elsewhereEnv True (NodeTarget sampleNode) sampleWorld)))"
  by (simp add: deploy_def getEarlySiteConfig_def getDeployContext_def javaFileExtension_def Let_def
      elsewhereEnv_def sampleEnv_simps events_since_def emit_def setTelemetry_def isRemoteCall_def
      sampleWorld_def)

text \<open>
  C4. When \<open>deploy\<close> is not started from a node and the node that the default target or
  the picker yields has the \<open>fullId\<close> of a node created while the target was picked, the
  run shows no confirmation warning, whatever \<open>confirmDeployment\<close> is.
\<close>

theorem fresh_target_is_not_confirmed:
  assumes picked_by_user: "\<forall>n. target' \<noteq> NodeTarget n"
    and ctx: "fst (getDeployContext env target' None w) = Inr deployContext"
    and picked: "fst (pickNode env deployContext w) = Inr (node, deployContext')"
    and fresh: "list_ex (\<lambda>newApp. fullId newApp = fullId node) (createdNodes env)"
  shows "\<not> list_ex isPrompt (events_since w (snd (deploy env confirmDeployment target' w)))"
proof -
  from deploy_picked [OF picked_by_user ctx picked, of confirmDeployment] obtain w3
    where q3: "quietlyTo w w3"
      and d: "deploy env confirmDeployment target' w =
              deployToNode env confirmDeployment node (createdNodes env) None deployContext' w3"
    by blast
  obtain r w' where run: "deployToNode env confirmDeployment node (createdNodes env) None deployContext' w3 = (r, w')"
    by (cases "deployToNode env confirmDeployment node (createdNodes env) None deployContext' w3")
  from run have "\<not> list_ex isPrompt (events_since w w')"
  proof (cases rule: deployToNode_cases)
    case (stopped e)
    from q3 stopped(2) have "quietlyTo w w'" by (rule quietlyTo_trans)
    from beforeConfirmation_not(1) [OF quiet_events [OF this]] show ?thesis .
  next
    case (confirming siteConfig deployContext'' w5 c w6)
    from q3 confirming(1) have q5: "quietlyTo w w5" by (rule quietlyTo_trans)
    have "confirmStep env False node siteConfig deployContext'' w5 = (Inr Proceed, w5)"
      by (rule confirmStep_skipped) simp
    with confirming(4,5) fresh
    have "transferStep env node siteConfig deployContext'' (getRandomHexString env) w5 = (r, w')"
      by auto
    from transferStep_trace [OF this] obtain ys where
      ys: "trace w' = trace w5 @ ys" "\<not> list_ex isPrompt ys" by blast
    from events_since_after_quiet [OF q5 ys(1)] ys(2)
      beforeConfirmation_not(1) [OF quiet_events [OF q5]]
    show ?thesis by simp
  qed
  with d run show ?thesis by simp
qed

theorem fresh_target_is_not_confirmed_witness:
  "list_ex (\<lambda>newApp. fullId newApp = fullId sampleNode) (createdNodes freshEnv) \<and>
   \<not> list_ex isPrompt (events_since sampleWorld (snd (deploy freshEnv True NoTarget sampleWorld)))"
proof -
  have a: "\<forall>n. NoTarget \<noteq> NodeTarget n" by simp
  have b: "fst (getDeployContext freshEnv NoTarget None sampleWorld) =
             Inr \<lparr>workspace = sampleFolder, deployFsPath = ''/ws'', deployedWithConfigs = False\<rparr>"
    by (simp add: getDeployContext_def javaFileExtension_def Let_def freshEnv_def sampleEnv_simps)
  have c: "fst (pickNode freshEnv \<lparr>workspace = sampleFolder, deployFsPath = ''/ws'', deployedWithConfigs = False\<rparr> sampleWorld) =
             Inr (sampleNode, \<lparr>workspace = sampleFolder, deployFsPath = ''/ws'', deployedWithConfigs = False\<rparr>)"
    by (simp add: pickNode_def Let_def freshEnv_def sampleEnv_simps)
  have d: "list_ex (\<lambda>newApp. fullId newApp = fullId sampleNode) (createdNodes freshEnv)"
    by (simp add: freshEnv_def)
  from fresh_target_is_not_confirmed [OF a b c d, of True] d show ?thesis by simp
qed

text \<open>
  C9. When a run of \<open>deploy\<close> shows the warning and the user chooses Reset default, the
  run neither runs the pre-deploy task nor transfers anything. When moreover the settings
  document of the workspace folder of the path to deploy opens, the host stores the
  setting of the default target, and the command \<^verbatim>\<open>appService.Deploy\<close> runs, then the
  run returns normally, the last two things it does are to write the empty string to the
  setting of the default target of that workspace folder and to execute
  \<^verbatim>\<open>appService.Deploy\<close>, and the setting of that folder holds the empty string afterwards.
\<close>

theorem reset_default_restarts:
  assumes run: "deploy env confirmDeployment target' w = (r, w')"
    and shown: "list_ex isPrompt (events_since w w')"
    and reset: "\<forall>message items. showWarningMessage env message items = Inr resetDefault"
    and early: "fst (getEarlySiteConfig env target' w) = Inr (node0, siteConfig0)"
    and path: "getDeployFsPath env target' (javaFileExtension env siteConfig0) = Inr p"
    and inside: "getContainingWorkspace env p = Some folder"
  shows "\<not> list_ex isPreDeployOrTransfer (events_since w w') \<and>
         (openTextDocument env (path_join env [fsPath folder, ''.vscode'', ''settings.json'']) = Inr () \<and>
          writeSetting env defaultWebAppToDeploySetting (SString []) (fsPath folder) = Inr () \<and>
          executeCommand env ''appService.Deploy'' = Inr () \<longrightarrow>
          r = Inr () \<and>
          (\<exists>before.
             events_since w w' =
               before @ [UpdateWorkspaceSetting defaultWebAppToDeploySetting (SString []) (fsPath folder),
                         ExecuteCommand ''appService.Deploy'']) \<and>
          getWorkspaceSetting defaultWebAppToDeploySetting (fsPath folder) w' = Some (SString []))"
  using run shown
proof (cases rule: deploy_prompt_cases)
  case (1 node siteConfig deployContext w5 c w6 node1 siteConfig1 deployContext0)
  from 1(5) early have "siteConfig1 = siteConfig0" by simp
  with 1(6) path inside have "deployContext0 =
      \<lparr>workspace = folder, deployFsPath = p, deployedWithConfigs = False\<rparr>"
    by (simp add: getDeployContext_def Let_def)
  with 1(7) have folder: "workspace deployContext = folder" by simp
  have q: "\<not> list_ex isPreDeployOrTransfer (events_since w w5)"
    using beforeConfirmation_not(2) [OF quiet_events [OF 1(1)]] .
  from confirmStep_trace [OF 1(3)] obtain xs where
    xs: "trace w6 = trace w5 @ xs" "\<not> list_ex isPreDeployOrTransfer xs" by blast
  have "c \<noteq> Inr Proceed"
    using 1(2,3) reset
    by (auto simp: confirmStep_def Let_def strictNotEqual_def split: sum.splits if_splits prod.splits)
  with 1(4) have w': "w' = w6" by (auto split: sum.splits confirmation.splits)
  with events_since_after_quiet [OF 1(1) xs(1)] xs(2) q
  have never: "\<not> list_ex isPreDeployOrTransfer (events_since w w')" by simp
  have "openTextDocument env (path_join env [fsPath folder, ''.vscode'', ''settings.json'']) = Inr () \<and>
        writeSetting env defaultWebAppToDeploySetting (SString []) (fsPath folder) = Inr () \<and>
        executeCommand env ''appService.Deploy'' = Inr () \<longrightarrow>
        r = Inr () \<and>
          (\<exists>before.
             events_since w w' =
               before @ [UpdateWorkspaceSetting defaultWebAppToDeploySetting (SString []) (fsPath folder),
                         ExecuteCommand ''appService.Deploy'']) \<and>
          getWorkspaceSetting defaultWebAppToDeploySetting (fsPath folder) w' = Some (SString [])"
  proof (intro impI, elim conjE)
    assume opened: "openTextDocument env (path_join env [fsPath folder, ''.vscode'', ''settings.json'']) = Inr ()"
      and stored: "writeSetting env defaultWebAppToDeploySetting (SString []) (fsPath folder) = Inr ()"
      and invoked: "executeCommand env ''appService.Deploy'' = Inr ()"
    let ?p = "path_join env [fsPath folder, ''.vscode'', ''settings.json'']"
    let ?items = "[AppServiceDialogResponses_deploy env] @
                   (if deployedWithConfigs deployContext then [resetDefault] else []) @
                   [DialogResponses_cancel env]"
    have asked: "showWarningMessage env (warning node) ?items = Inr resetDefault"
      using reset by simp
    note step = confirmStep_reset [OF TrueI 1(2) asked opened [folded folder] stored [folded folder]
        invoked 1(3)]
    from step(1) 1(4) have r: "r = Inr ()" by simp
    have ev: "events_since w w' =
        (events_since w w5 @
          [Delay 500, ShowWarningMessage (warning node) ?items, OpenTextDocument ?p, ShowTextDocument ?p]) @
        [UpdateWorkspaceSetting defaultWebAppToDeploySetting (SString []) (fsPath folder),
         ExecuteCommand ''appService.Deploy'']"
      using events_since_after_quiet [OF 1(1) step(2)] by (simp add: w' folder)
    have ends: "\<exists>before. events_since w w' =
        before @ [UpdateWorkspaceSetting defaultWebAppToDeploySetting (SString []) (fsPath folder),
                  ExecuteCommand ''appService.Deploy'']"
      unfolding ev by (rule exI, rule refl)
    have cleared: "getWorkspaceSetting defaultWebAppToDeploySetting (fsPath folder) w' = Some (SString [])"
      using step(3) unfolding w' folder .
    from r ends cleared
    show "r = Inr () \<and>
          (\<exists>before.
             events_since w w' =
               before @ [UpdateWorkspaceSetting defaultWebAppToDeploySetting (SString []) (fsPath folder),
                         ExecuteCommand ''appService.Deploy'']) \<and>
          getWorkspaceSetting defaultWebAppToDeploySetting (fsPath folder) w' = Some (SString [])"
      by (intro conjI)
  qed
  with never show ?thesis by (rule conjI)
qed

theorem reset_default_restarts_witness:
  "getWorkspaceSetting defaultWebAppToDeploySetting ''/ws'' defaultedWorld =
     Some (SString ''/subscriptions/s/sites/app'') \<and>
   fst (deploy resetEnv True NoTarget defaultedWorld) = Inr () \<and>
   (\<exists>before. events_since defaultedWorld (snd (deploy resetEnv True NoTarget defaultedWorld)) =
      before @ [UpdateWorkspaceSetting defaultWebAppToDeploySetting (SString []) ''/ws'',
                ExecuteCommand ''appService.Deploy'']) \<and>
   getWorkspaceSetting defaultWebAppToDeploySetting ''/ws''
     (snd (deploy resetEnv True NoTarget defaultedWorld)) = Some (SString []) \<and>
   \<not> list_ex isPreDeployOrTransfer
       (events_since defaultedWorld (snd (deploy resetEnv True NoTarget defaultedWorld)))"
proof -
  have run: "deploy resetEnv True NoTarget defaultedWorld =
     (fst (deploy resetEnv True NoTarget defaultedWorld), snd (deploy resetEnv True NoTarget defaultedWorld))"
    by simp
  have shown: "list_ex isPrompt
     (events_since defaultedWorld (snd (deploy resetEnv True NoTarget defaultedWorld)))"
    by (simp add: reset_trace isPrompt_def)
  have reset: "\<forall>message items. showWarningMessage resetEnv message items = Inr resetDefault"
    by (simp add: resetEnv_def)
  have early: "fst (getEarlySiteConfig resetEnv NoTarget defaultedWorld) = Inr (None, None)"
    by (simp add: getEarlySiteConfig_def)
  have path: "getDeployFsPath resetEnv NoTarget (javaFileExtension resetEnv None) = Inr ''/ws''"
    by (simp add: resetEnv_def sampleEnv_simps)
  have inside: "getContainingWorkspace resetEnv ''/ws'' = Some sampleFolder"
    by (simp add: resetEnv_def sampleEnv_simps)
  have opened: "openTextDocument resetEnv
      (path_join resetEnv [fsPath sampleFolder, ''.vscode'', ''settings.json'']) = Inr ()"
    by (simp add: resetEnv_def sampleEnv_simps)
  have stored: "writeSetting resetEnv defaultWebAppToDeploySetting (SString []) (fsPath sampleFolder) = Inr ()"
    by (simp add: resetEnv_def sampleEnv_simps)
  have invoked: "executeCommand resetEnv ''appService.Deploy'' = Inr ()"
    by (simp add: resetEnv_def sampleEnv_simps)
  have before: "getWorkspaceSetting defaultWebAppToDeploySetting ''/ws'' defaultedWorld =
     Some (SString ''/subscriptions/s/sites/app'')"
    by (simp add: getWorkspaceSetting_def defaultedWorld_def defaultWebAppToDeploySetting_def
        showPreDeployWarningSetting_def)
  have folder: "fsPath sampleFolder = ''/ws''" by (simp add: sampleFolder_def)
  note main = reset_default_restarts [OF run shown reset early path inside]
  have never: "\<not> list_ex isPreDeployOrTransfer
       (events_since defaultedWorld (snd (deploy resetEnv True NoTarget defaultedWorld)))"
    using main by (rule conjunct1)
  have "fst (deploy resetEnv True NoTarget defaultedWorld) = Inr () \<and>
   (\<exists>before. events_since defaultedWorld (snd (deploy resetEnv True NoTarget defaultedWorld)) =
      before @ [UpdateWorkspaceSetting defaultWebAppToDeploySetting (SString []) (fsPath sampleFolder),
                ExecuteCommand ''appService.Deploy'']) \<and>
   getWorkspaceSetting defaultWebAppToDeploySetting (fsPath sampleFolder)
     (snd (deploy resetEnv True NoTarget defaultedWorld)) = Some (SString [])"
    by (rule mp [OF conjunct2 [OF main] conjI [OF opened conjI [OF stored invoked]]])
  note ok = this [unfolded folder]
  from before ok never show ?thesis by (intro conjI) (elim conjE, assumption)+
qed

text \<open>
  The claim as it was stated, the preference cleared and the command invoked again
  whenever Reset default is chosen, fails where the settings document cannot be opened:
  the warning is shown and answered with Reset default, the run fails, the last thing it
  has done is the attempt to open the document, no setting is written, the command is not
  executed, and the workspace names the default target it named before.
\<close>

theorem reset_default_with_unopened_settings_counterexample:
  "showWarningMessage unopenedEnv (warning sampleNode)
     [MessageItem ''Deploy'', MessageItem ''Reset default'', MessageItem ''Cancel''] =
     Inr resetDefault \<and>
   fst (deploy unopenedEnv True NoTarget defaultedWorld) = Inl (Error ''cannot open settings.json'') \<and>
   events_since defaultedWorld (snd (deploy unopenedEnv True NoTarget defaultedWorld)) =
     [GetDeployFsPath, OnTreeItemCreate, GetDefaultWebAppToDeploy, Dispose,
      GetSiteConfig (fullId sampleNode), Delay 500,
      ShowWarningMessage (warning sampleNode)
        [MessageItem ''Deploy'', MessageItem ''Reset default'', MessageItem ''Cancel''],
      OpenTextDocument ''/ws/.vscode/settings.json''] \<and>
   getWorkspaceSetting defaultWebAppToDeploySetting ''/ws'' defaultedWorld =
     Some (SString ''/subscriptions/s/sites/app'') \<and>
   getWorkspaceSetting defaultWebAppToDeploySetting ''/ws''
     (snd (deploy unopenedEnv True NoTarget defaultedWorld)) =
     Some (SString ''/subscriptions/s/sites/app'')"
proof -
  have "showWarningMessage unopenedEnv (warning sampleNode)
     [MessageItem ''Deploy'', MessageItem ''Reset default'', MessageItem ''Cancel''] =
     Inr resetDefault"
    by (simp add: unopenedEnv_def resetEnv_def)
  moreover have "getWorkspaceSetting defaultWebAppToDeploySetting ''/ws'' defaultedWorld =
     Some (SString ''/subscriptions/s/sites/app'')"
    by (simp add: getWorkspaceSetting_def defaultedWorld_def defaultWebAppToDeploySetting_def
        showPreDeployWarningSetting_def)
  ultimately show ?thesis using unopened_run by (intro conjI)
qed

end
